theory Spec2Isabelle
  imports Main
begin

section \<open>Python values used by download.py\<close>

text \<open>
  Strings are \<open>char list\<close>; a character stands for a code point below 256.
  \<open>py_isspace\<close> is \<open>str.isspace\<close> on those code points: tab to carriage return,
  the four separators 0x1c-0x1f, the space, NEL (0x85) and the no-break space (0xa0).
\<close>

definition py_isspace :: "char \<Rightarrow> bool" where
  "py_isspace c =
     (let n = (of_char c :: nat)
      in (9 \<le> n \<and> n \<le> 13) \<or> (28 \<le> n \<and> n \<le> 32) \<or> n = 133 \<or> n = 160)"

text \<open>\<open>s.rstrip()\<close>: the trailing whitespace is dropped.\<close>

definition rstrip :: "string \<Rightarrow> string" where
  "rstrip s = rev (dropWhile py_isspace (rev s))"

text \<open>\<open>s.endswith(suffix)\<close>.\<close>

definition endswith :: "string \<Rightarrow> string \<Rightarrow> bool" where
  "endswith s suffix =
     (length suffix \<le> length s \<and> drop (length s - length suffix) s = suffix)"

text \<open>\<open>xs.index(x)\<close>: the first position of \<open>x\<close>; \<open>None\<close> is the ValueError.\<close>

fun list_index :: "'a list \<Rightarrow> 'a \<Rightarrow> nat option" where
  "list_index [] x = None"
| "list_index (y # ys) x =
     (if y = x then Some 0
      else (case list_index ys x of None \<Rightarrow> None | Some i \<Rightarrow> Some (Suc i)))"

text \<open>\<open>range(n)\<close> as the list of its values; empty when \<open>n \<le> 0\<close>.\<close>

definition py_range :: "int \<Rightarrow> int list" where
  "py_range n = [0..n - 1]"

text \<open>\<open>str(n)\<close> for a Python int.\<close>

definition digit_char :: "nat \<Rightarrow> char" where
  "digit_char d = ''0123456789'' ! d"

fun str_nat :: "nat \<Rightarrow> string" where
  "str_nat n =
     (if n < 10 then [digit_char n]
      else str_nat (n div 10) @ [digit_char (n mod 10)])"

declare str_nat.simps [simp del]

definition str_int :: "int \<Rightarrow> string" where
  "str_int i = (if i < 0 then CHR ''-'' # str_nat (nat (- i)) else str_nat (nat i))"

text \<open>
  \<open>os.path.join\<close> (posixpath): a component that starts with the separator restarts the
  path, otherwise it is appended after a separator unless the path is empty or already
  ends with one.
\<close>

definition join_step :: "string \<Rightarrow> string \<Rightarrow> string" where
  "join_step path b =
     (if take 1 b = ''/'' then b
      else if path = [] \<or> endswith path ''/'' then path @ b
      else path @ ''/'' @ b)"

definition os_path_join :: "string \<Rightarrow> string list \<Rightarrow> string" where
  "os_path_join a p = foldl join_step a p"

section \<open>Exceptions, log records and the world\<close>

text \<open>
  The exception classes of errors.py that download.py catches, with the attributes it
  reads (\<open>cmd_stderr\<close>; \<open>target_duration\<close> and \<open>actual_duration\<close>), and the built-in
  exceptions the code can raise. \<open>'f\<close> is Python's float type, whose operations are
  parameters of the model (see \<open>externals\<close>).
\<close>

datatype 'f exc =
    SubprocessError string
  | FfmpegIncorrectDurationError 'f 'f
  | FfmpegValidationError
  | ValueError
  | IndexError
  | TypeError
  | NotImplementedError string
  | OtherException string

text \<open>
  The \<open>input_path\<close> argument of \<open>ffmpeg\<close>: a str, an iterable of paths, or a value of
  another type. \<open>collections.Iterable\<close> is read as in the Python versions that have it
  (before 3.10).
\<close>

datatype input_path = PathStr string | PathIterable "string list" | PathOther

text \<open>One constructor per logging call of download.py, with the values it formats.\<close>

datatype 'f log_entry =
    InfoAlreadyExists string
  | ErrorRetrying "'f exc"
  | WarningRetrying "'f exc"
  | InfoDidNotValidate string "'f exc"
  | ErrorMaxRetries int input_path "'f exc option"
  | InfoDownloaded string 'f 'f
  | InfoAttempting string 'f 'f
  | ErrorWhileDownloading string "'f exc"
  | ErrorWhileProcessing string "'f exc"
  | InfoStarting string
  | InfoAlreadyDownloaded string 'f 'f
  | InfoFinished string

text \<open>
  The world a call runs in: the paths that exist, every run of the external tool in order
  (its argument vector and the paths that existed when it was started), the log, and what
  \<open>print\<close> wrote.
\<close>

record 'f world =
  fs_files :: "string set"
  tool_calls :: "(string list \<times> string set) list"
  logged :: "'f log_entry list"
  printed :: "string list"

text \<open>
  What download.py imports and does not define. \<open>run_command\<close> is the external tool: the
  number of runs made so far stands for everything outside the program that decides its
  outcome (the network, the remote media), so any sequence of outcomes is some
  \<open>run_command\<close>; it returns the exception it raises, if any, and the paths that exist
  afterwards. \<open>HTTP_ERR_PATTERN\<close> is \<open>HTTP_ERR_PATTERN.match\<close> of utils.py,
  \<open>video_url\<close> is \<open>Video.getFormats(ytid)['streamingData']['formats'][-1]['url']\<close>.
\<close>

record 'f externals =
  run_command :: "nat \<Rightarrow> string list \<Rightarrow> string set \<Rightarrow> 'f exc option \<times> string set"
  HTTP_ERR_PATTERN :: "string \<Rightarrow> bool"
  get_media_filename :: "string \<Rightarrow> 'f \<Rightarrow> 'f \<Rightarrow> string"
  get_subset_name :: "string \<Rightarrow> string"
  video_url :: "string \<Rightarrow> 'f exc + string"
  float_of_int :: "int \<Rightarrow> 'f"
  float_of_str :: "string \<Rightarrow> 'f option"
  float_add :: "'f \<Rightarrow> 'f \<Rightarrow> 'f"
  float_sub :: "'f \<Rightarrow> 'f \<Rightarrow> 'f"
  str_of_float :: "'f \<Rightarrow> string"
  int_of_str :: "string \<Rightarrow> int option"

definition os_path_exists :: "string \<Rightarrow> 'f world \<Rightarrow> bool" where
  "os_path_exists p w = (p \<in> fs_files w)"

definition os_remove :: "string \<Rightarrow> 'f world \<Rightarrow> 'f world" where
  "os_remove p w = w\<lparr>fs_files := fs_files w - {p}\<rparr>"

definition remove_if_exists :: "string \<Rightarrow> 'f world \<Rightarrow> 'f world" where
  "remove_if_exists p w = (if os_path_exists p w then os_remove p w else w)"

definition add_log :: "'f log_entry \<Rightarrow> 'f world \<Rightarrow> 'f world" where
  "add_log e w = w\<lparr>logged := logged w @ [e]\<rparr>"

text \<open>One run of the external tool, recorded in \<open>tool_calls\<close>.\<close>

definition call_tool ::
  "'f externals \<Rightarrow> string list \<Rightarrow> 'f world \<Rightarrow> 'f exc option \<times> 'f world" where
  "call_tool env args w =
     (case run_command env (length (tool_calls w)) args (fs_files w) of
        (r, fs') \<Rightarrow>
          (r, w\<lparr>fs_files := fs', tool_calls := tool_calls w @ [(args, fs_files w)]\<rparr>))"

section \<open>ffmpeg: the retry loop\<close>

text \<open>The variables of \<open>ffmpeg\<close> that change while the loop runs.\<close>

record 'f loop_state =
  input_args :: "string list"
  output_args :: "string list"
  last_err :: "'f exc option"
  world :: "'f world"

text \<open>How one iteration of the loop ends.\<close>

datatype 'f flow =
    Break "'f loop_state"
  | Continue "'f loop_state"
  | Raise "'f exc" "'f loop_state"

text \<open>The first lines of \<open>ffmpeg\<close>: the inputs as repeated \<open>-i path\<close> pairs.\<close>

definition expand_inputs :: "input_path \<Rightarrow> 'f exc + string list" where
  "expand_inputs input_path =
     (case input_path of
        PathStr p \<Rightarrow> Inr [''-i'', p]
      | PathIterable ps \<Rightarrow> Inr (concat (map (\<lambda>path. [''-i'', path]) ps))
      | PathOther \<Rightarrow> Inl ValueError)"

text \<open>
  The body of the \<open>try\<close>: the tool is run on the argument vector and, when it returns and a
  validation callback was passed, the callback is called on the output path (its keyword
  arguments are part of the callback). The callback is given the number of runs made so
  far, like \<open>run_command\<close>, and returns the exception it raises, if any.
\<close>

type_synonym 'f validation = "nat \<Rightarrow> string \<Rightarrow> string set \<Rightarrow> 'f exc option"

definition try_body ::
  "'f externals \<Rightarrow> 'f validation option \<Rightarrow> string list \<Rightarrow> string \<Rightarrow> 'f world
     \<Rightarrow> 'f exc option \<times> 'f world" where
  "try_body env validation_callback args output_path w =
     (case call_tool env args w of
        (Some e, w1) \<Rightarrow> (Some e, w1)
      | (None, w1) \<Rightarrow>
          (case validation_callback of
             None \<Rightarrow> (None, w1)
           | Some cb \<Rightarrow> (cb (length (tool_calls w1)) output_path (fs_files w1), w1)))"

text \<open>
  The rewrite of the duration in one argument list: the token after the first \<open>-t\<close>
  becomes \<open>str(float(token) + duration_diff)\<close>. A missing \<open>-t\<close> and a token that is not
  a float are ValueErrors, a \<open>-t\<close> in last position is an IndexError.
\<close>

definition adjust_duration ::
  "'f externals \<Rightarrow> string list \<Rightarrow> 'f \<Rightarrow> 'f exc + string list" where
  "adjust_duration env args duration_diff =
     (case list_index args ''-t'' of
        None \<Rightarrow> Inl ValueError
      | Some i \<Rightarrow>
          (let duration_idx = i + 1
           in if length args \<le> duration_idx then Inl IndexError
              else (case float_of_str env (args ! duration_idx) of
                      None \<Rightarrow> Inl ValueError
                    | Some v \<Rightarrow>
                        Inr (args[duration_idx :=
                               str_of_float env (float_add env v duration_diff)]))))"

text \<open>
  The \<open>try\<close>/\<open>except ValueError\<close> inside the duration handler: the \<open>-t\<close> of
  \<open>input_args\<close> is rewritten; when that raises ValueError (no \<open>-t\<close> there, or a token
  that is not a float) the \<open>-t\<close> of \<open>output_args\<close> is rewritten instead, and whatever
  that raises leaves \<open>ffmpeg\<close>.
\<close>

definition retarget ::
  "'f externals \<Rightarrow> string list \<Rightarrow> string list \<Rightarrow> 'f
     \<Rightarrow> 'f exc + (string list \<times> string list)" where
  "retarget env ia oa duration_diff =
     (case adjust_duration env ia duration_diff of
        Inr ia' \<Rightarrow> Inr (ia', oa)
      | Inl ValueError \<Rightarrow>
          (case adjust_duration env oa duration_diff of
             Inr oa' \<Rightarrow> Inr (ia, oa')
           | Inl err \<Rightarrow> Inl err)
      | Inl err \<Rightarrow> Inl err)"

text \<open>The three \<open>except\<close> clauses; any other exception leaves \<open>ffmpeg\<close>.\<close>

definition handle_exc ::
  "'f externals \<Rightarrow> string \<Rightarrow> int \<Rightarrow> int \<Rightarrow> 'f exc \<Rightarrow> 'f loop_state \<Rightarrow> 'f flow" where
  "handle_exc env output_path num_retries attempt e st =
     (case e of
        SubprocessError cmd_stderr \<Rightarrow>
          (let st1 = st\<lparr>last_err := Some e\<rparr>;
               stderr = rstrip cmd_stderr
           in if endswith stderr ''already exists. Exiting.''
              then Break (st1\<lparr>world := add_log (InfoAlreadyExists output_path) (world st1)\<rparr>)
              else if HTTP_ERR_PATTERN env stderr then Continue st1
              else Continue
                     (st1\<lparr>world :=
                        remove_if_exists output_path (add_log (ErrorRetrying e) (world st1))\<rparr>))
      | FfmpegIncorrectDurationError target_duration actual_duration \<Rightarrow>
          (let st1 = st\<lparr>last_err := Some e\<rparr>;
               st2 = (if attempt < num_retries - 1 \<and> os_path_exists output_path (world st1)
                      then st1\<lparr>world := os_remove output_path (world st1)\<rparr> else st1);
               duration_diff = float_sub env target_duration actual_duration
           in (case retarget env (input_args st2) (output_args st2) duration_diff of
                 Inr (ia, oa) \<Rightarrow>
                   Continue (st2\<lparr>input_args := ia, output_args := oa,
                                 world := add_log (WarningRetrying e) (world st2)\<rparr>)
               | Inl err \<Rightarrow> Raise err st2))
      | FfmpegValidationError \<Rightarrow>
          (let st1 = st\<lparr>last_err := Some e\<rparr>;
               st2 = (if attempt < num_retries - 1 \<and> os_path_exists output_path (world st1)
                      then st1\<lparr>world := os_remove output_path (world st1)\<rparr> else st1)
           in Continue (st2\<lparr>world := add_log (InfoDidNotValidate output_path e) (world st2)\<rparr>))
      | _ \<Rightarrow> Raise e st)"

text \<open>One iteration of \<open>for attempt in range(num_retries)\<close>.\<close>

definition ffmpeg_attempt ::
  "'f externals \<Rightarrow> string \<Rightarrow> string list \<Rightarrow> string \<Rightarrow> string \<Rightarrow> int
     \<Rightarrow> 'f validation option \<Rightarrow> int \<Rightarrow> 'f loop_state \<Rightarrow> 'f flow" where
  "ffmpeg_attempt env ffmpeg_path inputs output_path log_level num_retries
       validation_callback attempt st =
     (let args = [ffmpeg_path] @ input_args st @ inputs @ output_args st
                   @ [output_path, ''-loglevel'', log_level]
      in (case try_body env validation_callback args output_path (world st) of
            (None, w1) \<Rightarrow> Break (st\<lparr>world := w1\<rparr>)
          | (Some e, w1) \<Rightarrow>
              handle_exc env output_path num_retries attempt e (st\<lparr>world := w1\<rparr>)))"

text \<open>
  The \<open>for\<close> loop with its \<open>else\<close> clause, which runs when the attempts are used up
  without a \<open>break\<close>.
\<close>

fun ffmpeg_loop ::
  "'f externals \<Rightarrow> string \<Rightarrow> input_path \<Rightarrow> string list \<Rightarrow> string \<Rightarrow> string \<Rightarrow> int
     \<Rightarrow> 'f validation option \<Rightarrow> int list \<Rightarrow> 'f loop_state
     \<Rightarrow> ('f exc + unit) \<times> 'f loop_state" where
  "ffmpeg_loop env ffmpeg_path input_path inputs output_path log_level num_retries
       validation_callback [] st =
     (Inr (),
      st\<lparr>world := add_log (ErrorMaxRetries num_retries input_path (last_err st)) (world st)\<rparr>)"
| "ffmpeg_loop env ffmpeg_path input_path inputs output_path log_level num_retries
       validation_callback (attempt # rest) st =
     (case ffmpeg_attempt env ffmpeg_path inputs output_path log_level num_retries
             validation_callback attempt st of
        Break st' \<Rightarrow> (Inr (), st')
      | Continue st' \<Rightarrow>
          ffmpeg_loop env ffmpeg_path input_path inputs output_path log_level num_retries
            validation_callback rest st'
      | Raise e st' \<Rightarrow> (Inl e, st'))"

text \<open>
  \<open>ffmpeg\<close>. \<open>input_args\<close> and \<open>output_args\<close> default to \<open>None\<close>, and a falsy value is
  replaced by the empty list. The result is the exception that left the function, or
  \<open>Inr ()\<close> when it returned, and the world it left.
\<close>

definition ffmpeg ::
  "'f externals \<Rightarrow> string \<Rightarrow> input_path \<Rightarrow> string \<Rightarrow> string list option
     \<Rightarrow> string list option \<Rightarrow> string \<Rightarrow> int \<Rightarrow> 'f validation option \<Rightarrow> 'f world
     \<Rightarrow> ('f exc + unit) \<times> 'f world" where
  "ffmpeg env ffmpeg_path input_path output_path input_args0 output_args0 log_level
       num_retries validation_callback w =
     (case expand_inputs input_path of
        Inl e \<Rightarrow> (Inl e, w)
      | Inr inputs \<Rightarrow>
          (let ia = (case input_args0 of None \<Rightarrow> [] | Some xs \<Rightarrow> xs);
               oa = (case output_args0 of None \<Rightarrow> [] | Some xs \<Rightarrow> xs);
               res = ffmpeg_loop env ffmpeg_path input_path inputs output_path log_level
                       num_retries validation_callback (py_range num_retries)
                       \<lparr>input_args = ia, output_args = oa, last_err = None, world = w\<rparr>
           in (fst res, world (snd res))))"


section \<open>download_yt_video: one segment\<close>

text \<open>The keyword arguments of \<open>download_yt_video\<close>, each under its name with \<open>kw_\<close> in front.\<close>

record yt_kwargs =
  kw_audio_codec :: string
  kw_audio_format :: string
  kw_audio_sample_rate :: int
  kw_audio_bit_depth :: int
  kw_video_codec :: string
  kw_video_format :: string
  kw_video_mode :: string
  kw_video_frame_rate :: int
  kw_num_retries :: int

text \<open>The three output paths of a segment.\<close>

definition videowithaudio_path :: "string \<Rightarrow> string \<Rightarrow> string \<Rightarrow> string" where
  "videowithaudio_path output_dir media_filename vformat =
     os_path_join output_dir [''video_audio'', media_filename @ ''.'' @ vformat]"

definition video_path :: "string \<Rightarrow> string \<Rightarrow> string \<Rightarrow> string" where
  "video_path output_dir media_filename vformat =
     os_path_join output_dir [''video'', media_filename @ ''.'' @ vformat]"

definition audio_path :: "string \<Rightarrow> string \<Rightarrow> string \<Rightarrow> string" where
  "audio_path output_dir media_filename aformat =
     os_path_join output_dir [''audio'', media_filename @ ''.'' @ aformat]"

text \<open>The argument lists of the three calls of \<open>ffmpeg\<close>; the channel count is 2.\<close>

definition audio_output_args :: "yt_kwargs \<Rightarrow> string list" where
  "audio_output_args kw =
     [''-t'', str_int 10,
      ''-ar'', str_int (kw_audio_sample_rate kw),
      ''-vn'',
      ''-ac'', str_int 2,
      ''-sample_fmt'', ''s'' @ str_int (kw_audio_bit_depth kw),
      ''-f'', kw_audio_format kw,
      ''-acodec'', kw_audio_codec kw]"

definition video_output_args :: "yt_kwargs \<Rightarrow> string list" where
  "video_output_args kw =
     [''-t'', str_int 10,
      ''-f'', kw_video_format kw,
      ''-crf'', ''0'',
      ''-preset'', ''medium'',
      ''-r'', str_int (kw_video_frame_rate kw),
      ''-an'',
      ''-vcodec'', kw_video_codec kw]"

definition mux_output_args :: "yt_kwargs \<Rightarrow> string list" where
  "mux_output_args kw =
     [''-f'', kw_video_format kw,
      ''-r'', str_int (kw_video_frame_rate kw),
      ''-vcodec'', kw_video_codec kw,
      ''-acodec'', ''aac'',
      ''-ar'', str_int (kw_audio_sample_rate kw),
      ''-ac'', str_int 2,
      ''-strict'', ''experimental'']"

text \<open>
  \<open>download_yt_video\<close>. The result is the exception that left the function or the pair
  it returned (\<open>None, None\<close> or the video and audio paths), and the world it left. The
  dictionaries \<open>audio_info\<close> and \<open>video_info\<close> are read for the channel count only.
\<close>

definition download_yt_video ::
  "'f externals \<Rightarrow> string \<Rightarrow> 'f \<Rightarrow> 'f \<Rightarrow> string \<Rightarrow> string \<Rightarrow> string \<Rightarrow> yt_kwargs
     \<Rightarrow> 'f world \<Rightarrow> ('f exc + (string option \<times> string option)) \<times> 'f world" where
  "download_yt_video env ytid ts_start ts_end output_dir ffmpeg_path ffprobe_path kw w =
     (let media_filename = get_media_filename env ytid ts_start ts_end;
          videowithaudio_filepath = videowithaudio_path output_dir media_filename (kw_video_format kw);
          video_filepath = video_path output_dir media_filename (kw_video_format kw);
          audio_filepath = audio_path output_dir media_filename (kw_audio_format kw);
          w1 = remove_if_exists videowithaudio_filepath w;
          w2 = remove_if_exists video_filepath w1;
          w3 = remove_if_exists audio_filepath w2
      in if length ytid \<noteq> 11 then (Inr (None, None), w3\<lparr>printed := printed w3 @ [ytid]\<rparr>)
         else
          (case video_url env ytid of
             Inl e \<Rightarrow> (Inl e, w3)
           | Inr url \<Rightarrow>
              (case ffmpeg env ffmpeg_path (PathStr url) audio_filepath
                      (Some [''-n'', ''-ss'', str_of_float env ts_start])
                      (Some (audio_output_args kw)) ''error'' (kw_num_retries kw) None w3 of
                 (Inl e, w4) \<Rightarrow> (Inl e, w4)
               | (Inr _, w4) \<Rightarrow>
                  if kw_video_codec kw \<noteq> ''h264''
                  then (Inl (NotImplementedError (kw_video_codec kw)), w4)
                  else
                   (case ffmpeg env ffmpeg_path (PathStr url) video_filepath
                           (Some [''-n'', ''-ss'', str_of_float env ts_start])
                           (Some (video_output_args kw)) ''error'' (kw_num_retries kw) None w4 of
                      (Inl e, w5) \<Rightarrow> (Inl e, w5)
                    | (Inr _, w5) \<Rightarrow>
                       (case ffmpeg env ffmpeg_path
                               (PathIterable [video_filepath, audio_filepath])
                               videowithaudio_filepath (Some [''-n''])
                               (Some (mux_output_args kw)) ''error'' (kw_num_retries kw) None w5 of
                          (Inl e, w6) \<Rightarrow> (Inl e, w6)
                        | (Inr _, w6) \<Rightarrow>
                           (Inr (Some video_filepath, Some audio_filepath),
                            add_log (InfoDownloaded ytid ts_start ts_end) w6))))))"

section \<open>download_subset_videos: the scheduler\<close>

text \<open>
  The keyword dictionary \<open>ffmpeg_cfg\<close> that the scheduler passes on to the workers; a key
  may be absent. The scheduler reads two of its keys, with \<open>dict.get\<close> and a default.
\<close>

record ffmpeg_cfg =
  cfg_audio_codec :: "string option"
  cfg_audio_format :: "string option"
  cfg_audio_sample_rate :: "int option"
  cfg_audio_bit_depth :: "int option"
  cfg_video_codec :: "string option"
  cfg_video_format :: "string option"
  cfg_video_mode :: "string option"
  cfg_video_frame_rate :: "int option"
  cfg_num_retries :: "int option"

definition dict_get :: "'a option \<Rightarrow> 'a \<Rightarrow> 'a" where
  "dict_get entry dflt = (case entry of None \<Rightarrow> dflt | Some v \<Rightarrow> v)"

text \<open>
  The rows of the metadata file as the csv module yields them. \<open>csv.reader\<close> returns a
  reader object, which can be iterated and has no \<open>__getitem__\<close>: subscripting it, as
  \<open>subset_data[1:]\<close> does, raises TypeError. A list can be sliced.
\<close>

datatype rows_object = ListObject "string list list" | ReaderObject "string list list"

definition csv_reader :: "string list list \<Rightarrow> rows_object" where
  "csv_reader file_rows = ReaderObject file_rows"

definition slice_from :: "rows_object \<Rightarrow> nat \<Rightarrow> 'f exc + string list list" where
  "slice_from obj k =
     (case obj of
        ListObject rows \<Rightarrow> Inr (drop k rows)
      | ReaderObject rows \<Rightarrow> Inl TypeError)"

text \<open>\<open>row[i]\<close> for an index that is not negative.\<close>

definition row_get :: "string list \<Rightarrow> nat \<Rightarrow> 'f exc + string" where
  "row_get row i = (if i < length row then Inr (row ! i) else Inl IndexError)"

definition row_int :: "'f externals \<Rightarrow> string list \<Rightarrow> nat \<Rightarrow> 'f exc + int" where
  "row_int env row i =
     (case row_get row i of
        Inl e \<Rightarrow> Inl e
      | Inr s \<Rightarrow> (case int_of_str env s of None \<Rightarrow> Inl ValueError | Some n \<Rightarrow> Inr n))"

text \<open>
  The scheduler's state: the world and the jobs handed to the pool with \<open>apply_async\<close>
  (identifier, start and end offset), in order. The workers run in other processes; what
  they do is not part of this state.
\<close>

record 'f scheduler =
  sched_world :: "'f world"
  submitted :: "(string \<times> 'f \<times> 'f) list"

text \<open>The body of the \<open>for\<close> loop over the rows.\<close>

definition process_row ::
  "'f externals \<Rightarrow> string \<Rightarrow> ffmpeg_cfg \<Rightarrow> string list \<Rightarrow> 'f scheduler
     \<Rightarrow> 'f exc + 'f scheduler" where
  "process_row env data_dir cfg row s =
     (case row_get row 0 of
        Inl e \<Rightarrow> Inl e
      | Inr ytid \<Rightarrow>
     (case row_int env row 1 of
        Inl e \<Rightarrow> Inl e
      | Inr hour \<Rightarrow>
     (case row_int env row 2 of
        Inl e \<Rightarrow> Inl e
      | Inr minute \<Rightarrow>
     (case row_int env row 3 of
        Inl e \<Rightarrow> Inl e
      | Inr second \<Rightarrow>
         (let ts_start = float_of_int env (hour * 3600 + minute * 60 + second);
              ts_end = float_add env ts_start (float_of_int env 10);
              media_filename = get_media_filename env ytid ts_start ts_end;
              videowithaudio_filepath =
                videowithaudio_path data_dir media_filename
                  (dict_get (cfg_video_format cfg) ''mp4'');
              video_filepath =
                video_path data_dir media_filename (dict_get (cfg_video_format cfg) ''mp4'');
              audio_filepath =
                audio_path data_dir media_filename (dict_get (cfg_audio_format cfg) ''wav'')
          in if os_path_exists video_filepath (sched_world s)
                \<and> os_path_exists audio_filepath (sched_world s)
                \<and> os_path_exists videowithaudio_filepath (sched_world s)
             then Inr (s\<lparr>sched_world :=
                          add_log (InfoAlreadyDownloaded ytid ts_start ts_end) (sched_world s)\<rparr>)
             else Inr (s\<lparr>submitted := submitted s @ [(ytid, ts_start, ts_end)]\<rparr>))))))"

text \<open>
  The loop over the rows; an exception raised for a row ends it, with the jobs submitted
  for the rows before.
\<close>

fun process_rows ::
  "'f externals \<Rightarrow> string \<Rightarrow> ffmpeg_cfg \<Rightarrow> string list list \<Rightarrow> 'f scheduler
     \<Rightarrow> ('f exc + unit) \<times> 'f scheduler" where
  "process_rows env data_dir cfg [] s = (Inr (), s)"
| "process_rows env data_dir cfg (row # rest) s =
     (case process_row env data_dir cfg row s of
        Inl e \<Rightarrow> (Inl e, s)
      | Inr s' \<Rightarrow> process_rows env data_dir cfg rest s')"

text \<open>
  \<open>download_subset_videos\<close>, on the rows of the file at \<open>subset_path\<close>, which is taken
  to exist. \<open>mp.Pool\<close> raises ValueError for fewer than one worker. An exception other
  than \<open>csv.Error\<close> and KeyboardInterrupt leaves the function after the pool is closed
  and joined; the result is that exception, or the state after the last row, with the
  final log record.
\<close>

definition download_subset_videos ::
  "'f externals \<Rightarrow> string \<Rightarrow> string list list \<Rightarrow> string \<Rightarrow> string \<Rightarrow> string \<Rightarrow> int
     \<Rightarrow> ffmpeg_cfg \<Rightarrow> 'f world \<Rightarrow> ('f exc + unit) \<times> 'f scheduler" where
  "download_subset_videos env subset_path file_rows data_dir ffmpeg_path ffprobe_path
       num_workers cfg w =
     (let subset_name = get_subset_name env subset_path;
          s0 = \<lparr>sched_world = add_log (InfoStarting subset_name) w, submitted = []\<rparr>;
          subset_data = csv_reader file_rows
      in if num_workers < 1 then (Inl ValueError, s0)
         else
          (case slice_from subset_data 1 of
            Inl e \<Rightarrow> (Inl e, s0)
          | Inr rows \<Rightarrow>
             (case process_rows env data_dir cfg rows s0 of
                (Inl e, s1) \<Rightarrow> (Inl e, s1)
              | (Inr _, s1) \<Rightarrow>
                 (Inr (),
                  s1\<lparr>sched_world := add_log (InfoFinished subset_name) (sched_world s1)\<rparr>))))"

section \<open>A concrete environment\<close>

text \<open>
  An instance of the parameters on which the definitions can be evaluated. Floats are
  decimal numbers with one fractional digit, kept as their number of tenths, so that
  addition and subtraction are exact; \<open>str_tenths\<close> prints them as Python prints such a
  float (\<open>10.0\<close>, \<open>10.5\<close>) and \<open>tenths_of_str\<close> reads an unsigned decimal with at most
  one fractional digit. The media file name is the identifier and the two offsets in
  milliseconds; the HTTP pattern is a fixed prefix of the error output.
\<close>

definition is_digit :: "char \<Rightarrow> bool" where
  "is_digit c = (48 \<le> (of_char c :: nat) \<and> (of_char c :: nat) \<le> 57)"

definition digits_value :: "string \<Rightarrow> nat option" where
  "digits_value s =
     (if s \<noteq> [] \<and> list_all is_digit s
      then Some (foldl (\<lambda>acc c. 10 * acc + (of_char c - 48)) 0 s)
      else None)"

definition tenths_of_str :: "string \<Rightarrow> int option" where
  "tenths_of_str s =
     (let whole = takeWhile (\<lambda>c. c \<noteq> CHR ''.'') s;
          rest = dropWhile (\<lambda>c. c \<noteq> CHR ''.'') s
      in (case digits_value whole of
            None \<Rightarrow> None
          | Some n \<Rightarrow>
              if rest = [] then Some (10 * int n)
              else (case digits_value (drop 1 rest) of
                      None \<Rightarrow> None
                    | Some d \<Rightarrow> if length rest = 2 then Some (10 * int n + int d) else None)))"

definition str_tenths :: "int \<Rightarrow> string" where
  "str_tenths x =
     (if x < 0 then CHR ''-'' # str_nat (nat (- x) div 10) @ ''.'' @ str_nat (nat (- x) mod 10)
      else str_nat (nat x div 10) @ ''.'' @ str_nat (nat x mod 10))"

definition int_of_digits :: "string \<Rightarrow> int option" where
  "int_of_digits s = map_option int (digits_value s)"

definition startswith :: "string \<Rightarrow> string \<Rightarrow> bool" where
  "startswith s pre = (take (length pre) s = pre)"

definition decimal_env ::
  "(nat \<Rightarrow> string list \<Rightarrow> string set \<Rightarrow> int exc option \<times> string set) \<Rightarrow> int externals" where
  "decimal_env tool =
     \<lparr>run_command = tool,
      HTTP_ERR_PATTERN = (\<lambda>s. startswith s ''HTTP error 503''),
      get_media_filename =
        (\<lambda>ytid ts_start ts_end.
           ytid @ ''_'' @ str_int (ts_start * 100) @ ''_'' @ str_int (ts_end * 100)),
      get_subset_name = (\<lambda>path. path),
      video_url = (\<lambda>ytid. Inr (''https://media.example/'' @ ytid)),
      float_of_int = (\<lambda>i. 10 * i),
      float_of_str = tenths_of_str,
      float_add = (\<lambda>a b. a + b),
      float_sub = (\<lambda>a b. a - b),
      str_of_float = str_tenths,
      int_of_str = int_of_digits\<rparr>"

text \<open>Tools: one that always succeeds and changes nothing, and the empty world.\<close>

definition tool_ok :: "nat \<Rightarrow> string list \<Rightarrow> string set \<Rightarrow> int exc option \<times> string set" where
  "tool_ok n args fs = (None, fs)"

definition empty_world :: "int world" where
  "empty_world = \<lparr>fs_files = {}, tool_calls = [], logged = [], printed = []\<rparr>"

text \<open>Tools and a validation callback for the evaluations below.\<close>

definition tool_exists :: "nat \<Rightarrow> string list \<Rightarrow> string set \<Rightarrow> int exc option \<times> string set" where
  "tool_exists n args fs = (Some (SubprocessError ''File out already exists. Exiting.''), fs)"

text \<open>
  A tool that writes its output file (the third argument from the end) and fails with an
  HTTP 503 message.
\<close>

definition tool_http_503 :: "nat \<Rightarrow> string list \<Rightarrow> string set \<Rightarrow> int exc option \<times> string set" where
  "tool_http_503 n args fs =
     (Some (SubprocessError ''HTTP error 503 Service Unavailable''),
      insert (args ! (length args - 3)) fs)"

text \<open>
  A validation callback that reports target 10.0 and actual 9.5 after the first run,
  target 10.0 and actual 9.8 after the second, and accepts the third.
\<close>

definition mismatch_twice :: "nat \<Rightarrow> string \<Rightarrow> string set \<Rightarrow> int exc option" where
  "mismatch_twice n path fs =
     (if n = 1 then Some (FfmpegIncorrectDurationError 100 95)
      else if n = 2 then Some (FfmpegIncorrectDurationError 100 98)
      else None)"

definition start_state :: "string set \<Rightarrow> int loop_state" where
  "start_state fs =
     \<lparr>input_args = [''-n''], output_args = [''-t'', ''10''], last_err = None,
      world = \<lparr>fs_files = fs, tool_calls = [], logged = [], printed = []\<rparr>\<rparr>"

text \<open>
  The keyword arguments as the command line gives them by default, and variants of them.
\<close>

definition cli_kwargs :: yt_kwargs where
  "cli_kwargs =
     \<lparr>kw_audio_codec = ''pcm_s16le'', kw_audio_format = ''wav'', kw_audio_sample_rate = 48000,
      kw_audio_bit_depth = 16, kw_video_codec = ''h264'', kw_video_format = ''mp4'',
      kw_video_mode = ''bestvideo'', kw_video_frame_rate = 30, kw_num_retries = 10\<rparr>"

definition vp9_kwargs :: yt_kwargs where
  "vp9_kwargs = cli_kwargs\<lparr>kw_video_codec := ''vp9''\<rparr>"

definition no_retry_kwargs :: yt_kwargs where
  "no_retry_kwargs = cli_kwargs\<lparr>kw_num_retries := 0\<rparr>"

definition two_retry_kwargs :: yt_kwargs where
  "two_retry_kwargs = cli_kwargs\<lparr>kw_num_retries := 2\<rparr>"

text \<open>A tool that cannot be started: \<open>run_command\<close> raises an exception of another class.\<close>

definition tool_oserror :: "nat \<Rightarrow> string list \<Rightarrow> string set \<Rightarrow> int exc option \<times> string set" where
  "tool_oserror n args fs = (Some (OtherException ''FileNotFoundError''), fs)"

text \<open>A world in which the three output files of the segment \<open>short\<close> at 30 s exist.\<close>

definition stale_world :: "int world" where
  "stale_world =
     \<lparr>fs_files = {''/data/video_audio/short_30000_40000.mp4'',
                  ''/data/video/short_30000_40000.mp4'',
                  ''/data/audio/short_30000_40000.wav''},
      tool_calls = [], logged = [], printed = []\<rparr>"

text \<open>
  The scheduler's keyword dictionary with the command-line defaults, a metadata file with
  its header and one row, and a world in which the three output files of that row exist.
\<close>

definition cli_cfg :: ffmpeg_cfg where
  "cli_cfg =
     \<lparr>cfg_audio_codec = Some ''pcm_s16le'', cfg_audio_format = Some ''wav'',
      cfg_audio_sample_rate = Some 48000, cfg_audio_bit_depth = Some 16,
      cfg_video_codec = Some ''h264'', cfg_video_format = Some ''mp4'',
      cfg_video_mode = Some ''bestvideo'', cfg_video_frame_rate = Some 30,
      cfg_num_retries = Some 10\<rparr>"

definition meta_rows :: "string list list" where
  "meta_rows = [[''YTID'', ''hour'', ''minute'', ''second''], [''abcdefghijk'', ''0'', ''0'', ''30'']]"

definition done_world :: "int world" where
  "done_world =
     \<lparr>fs_files = {''/data/video_audio/abcdefghijk_30000_40000.mp4'',
                  ''/data/video/abcdefghijk_30000_40000.mp4'',
                  ''/data/audio/abcdefghijk_30000_40000.wav''},
      tool_calls = [], logged = [], printed = []\<rparr>"

section \<open>Definitions used to state the properties\<close>

text \<open>
  The duration value as the specification describes it: each adjustment is added to the
  value the previous one wrote. \<open>compounded_duration env cur ds\<close> is the token after the
  adjustments \<open>ds\<close>, in order, starting from the token \<open>cur\<close>; \<open>None\<close> when a token on the
  way is not a float.
\<close>

fun compounded_duration :: "'f externals \<Rightarrow> string \<Rightarrow> 'f list \<Rightarrow> string option" where
  "compounded_duration env cur [] = Some cur"
| "compounded_duration env cur (d # ds) =
     (case float_of_str env cur of
        None \<Rightarrow> None
      | Some v \<Rightarrow> compounded_duration env (str_of_float env (float_add env v d)) ds)"

text \<open>The state in which an iteration ends, whichever way it ends.\<close>

definition flow_state :: "'f flow \<Rightarrow> 'f loop_state" where
  "flow_state fl = (case fl of Break st \<Rightarrow> st | Continue st \<Rightarrow> st | Raise e st \<Rightarrow> st)"

section \<open>Lemmas about the retry loop\<close>

text \<open>A string that ends with the marker has no trailing whitespace to strip.\<close>

lemma rstrip_id: "s \<noteq> [] \<Longrightarrow> \<not> py_isspace (last s) \<Longrightarrow> rstrip s = s"
  by (cases s rule: rev_cases) (simp_all add: rstrip_def)

lemma endswith_last: "endswith s m \<Longrightarrow> m \<noteq> [] \<Longrightarrow> s \<noteq> [] \<and> last s = last m"
proof -
  assume e: "endswith s m" and m: "m \<noteq> []"
  from e have "s = take (length s - length m) s @ m"
    unfolding endswith_def by (metis append_take_drop_id)
  with m show ?thesis by (metis append_is_Nil_conv last_appendR)
qed

lemma marker_rstrip:
  "endswith s ''already exists. Exiting.'' \<Longrightarrow> rstrip s = s"
proof -
  assume e: "endswith s ''already exists. Exiting.''"
  have "s \<noteq> [] \<and> last s = last ''already exists. Exiting.''"
    by (rule endswith_last [OF e]) simp
  then show ?thesis by (simp add: rstrip_id py_isspace_def)
qed

text \<open>An attempt whose tool run raises goes to the handlers with the run recorded.\<close>

lemma attempt_subprocess:
  assumes "run_command env (length (tool_calls (world st)))
             ([ffmpeg_path] @ input_args st @ inputs @ output_args st
                @ [output_path, ''-loglevel'', log_level]) (fs_files (world st))
           = (Some e, fs')"
  shows "ffmpeg_attempt env ffmpeg_path inputs output_path log_level num_retries vcb attempt st =
         handle_exc env output_path num_retries attempt e
           (st\<lparr>world := (world st)\<lparr>fs_files := fs',
                 tool_calls := tool_calls (world st)
                   @ [([ffmpeg_path] @ input_args st @ inputs @ output_args st
                        @ [output_path, ''-loglevel'', log_level], fs_files (world st))]\<rparr>\<rparr>)"
  using assms by (simp add: ffmpeg_attempt_def try_body_def call_tool_def)

text \<open>The HTTP branch: \<open>continue\<close>, before the logging and the removal.\<close>

lemma loop_http_step:
  assumes "run_command env (length (tool_calls (world st)))
             ([ffmpeg_path] @ input_args st @ inputs @ output_args st
                @ [output_path, ''-loglevel'', log_level]) (fs_files (world st))
           = (Some (SubprocessError cmd_stderr), fs')"
    and "\<not> endswith (rstrip cmd_stderr) ''already exists. Exiting.''"
    and "HTTP_ERR_PATTERN env (rstrip cmd_stderr)"
  shows "ffmpeg_loop env ffmpeg_path input_path inputs output_path log_level num_retries vcb
           (attempt # rest) st =
         ffmpeg_loop env ffmpeg_path input_path inputs output_path log_level num_retries vcb
           rest
           (st\<lparr>world := (world st)\<lparr>fs_files := fs',
                 tool_calls := tool_calls (world st)
                   @ [([ffmpeg_path] @ input_args st @ inputs @ output_args st
                        @ [output_path, ''-loglevel'', log_level], fs_files (world st))]\<rparr>,
              last_err := Some (SubprocessError cmd_stderr)\<rparr>)"
  using assms(2,3)
  by (simp add: attempt_subprocess [OF assms(1)] handle_exc_def)

lemma loop_all_http:
  assumes H: "\<And>n args fs. fst (run_command env n args fs) = Some (SubprocessError (errs n))"
    and P: "\<And>n. HTTP_ERR_PATTERN env (rstrip (errs n))"
    and Q: "\<And>n. \<not> endswith (rstrip (errs n)) ''already exists. Exiting.''"
  shows "fst (ffmpeg_loop env ffmpeg_path input_path inputs output_path log_level nr vcb as st)
           = Inr () \<and>
         length (tool_calls (world (snd
           (ffmpeg_loop env ffmpeg_path input_path inputs output_path log_level nr vcb as st))))
           = length (tool_calls (world st)) + length as \<and>
         logged (world (snd
           (ffmpeg_loop env ffmpeg_path input_path inputs output_path log_level nr vcb as st)))
           = logged (world st) @
             [ErrorMaxRetries nr input_path
               (if as = [] then last_err st
                else Some (SubprocessError
                       (errs (length (tool_calls (world st)) + length as - 1))))]"
proof (induction as arbitrary: st)
  case Nil
  show ?case by (simp add: add_log_def)
next
  case (Cons a as)
  let ?args = "[ffmpeg_path] @ input_args st @ inputs @ output_args st
                 @ [output_path, ''-loglevel'', log_level]"
  let ?n = "length (tool_calls (world st))"
  obtain fs' where r: "run_command env ?n ?args (fs_files (world st))
                        = (Some (SubprocessError (errs ?n)), fs')"
    using H [of ?n ?args "fs_files (world st)"] by (cases "run_command env ?n ?args (fs_files (world st))") simp
  let ?st1 = "st\<lparr>world := (world st)\<lparr>fs_files := fs',
                 tool_calls := tool_calls (world st) @ [(?args, fs_files (world st))]\<rparr>,
              last_err := Some (SubprocessError (errs ?n))\<rparr>"
  have step: "ffmpeg_loop env ffmpeg_path input_path inputs output_path log_level nr vcb
                (a # as) st
              = ffmpeg_loop env ffmpeg_path input_path inputs output_path log_level nr vcb
                as ?st1"
    using loop_http_step [OF r Q P] by simp
  show ?case
    unfolding step using Cons.IH [of ?st1] by (cases as) simp_all
qed

lemma length_py_range: "length (py_range n) = nat n"
  by (simp add: py_range_def)

lemma py_range_Nil: "(py_range n = []) = (n \<le> 0)"
  by (auto simp add: py_range_def)

text \<open>The first \<open>-t\<close> stays where it is when the token after it is rewritten.\<close>

lemma list_index_update:
  "list_index xs x = Some i \<Longrightarrow> list_index (xs[Suc i := y]) x = Some i"
proof (induction xs arbitrary: i)
  case Nil
  then show ?case by simp
next
  case (Cons a xs)
  then show ?case by (auto split: if_splits option.splits)
qed

lemma list_index_length: "list_index xs x = Some i \<Longrightarrow> i < length xs"
  by (induction xs arbitrary: i) (auto split: if_splits option.splits)

lemma adjust_duration_Some:
  "list_index args ''-t'' = Some i \<Longrightarrow> Suc i < length args \<Longrightarrow>
   float_of_str env (args ! Suc i) = Some v \<Longrightarrow>
   adjust_duration env args d = Inr (args[Suc i := str_of_float env (float_add env v d)])"
  by (simp add: adjust_duration_def)

lemma adjust_duration_None:
  "list_index args ''-t'' = None \<Longrightarrow> adjust_duration env args d = Inl ValueError"
  by (simp add: adjust_duration_def)

lemma retarget_input:
  "list_index ia ''-t'' = Some i \<Longrightarrow> Suc i < length ia \<Longrightarrow>
   float_of_str env x = Some v \<Longrightarrow>
   retarget env (ia[Suc i := x]) oa d
     = Inr (ia[Suc i := str_of_float env (float_add env v d)], oa)"
  by (simp add: retarget_def adjust_duration_Some [where i = i and v = v] list_index_update)

lemma retarget_output:
  "list_index ia ''-t'' = None \<Longrightarrow> list_index oa ''-t'' = Some i \<Longrightarrow> Suc i < length oa \<Longrightarrow>
   float_of_str env x = Some v \<Longrightarrow>
   retarget env ia (oa[Suc i := x]) d
     = Inr (ia, oa[Suc i := str_of_float env (float_add env v d)])"
  by (simp add: retarget_def adjust_duration_None
        adjust_duration_Some [where i = i and v = v] list_index_update)

text \<open>Every iteration records exactly one run; the loop only appends to the record.\<close>

lemma try_body_calls:
  "tool_calls (snd (try_body env vcb args output_path w)) = tool_calls w @ [(args, fs_files w)]"
  by (simp add: try_body_def call_tool_def split: prod.splits option.splits)

lemma handle_exc_calls:
  "tool_calls (world (flow_state (handle_exc env output_path nr attempt e st)))
     = tool_calls (world st)"
  by (cases e)
     (simp_all add: handle_exc_def flow_state_def Let_def add_log_def remove_if_exists_def
        os_remove_def split: sum.splits prod.splits)

lemma attempt_calls:
  "tool_calls (world (flow_state
      (ffmpeg_attempt env ffmpeg_path inputs output_path log_level nr vcb attempt st)))
   = tool_calls (world st)
       @ [([ffmpeg_path] @ input_args st @ inputs @ output_args st
             @ [output_path, ''-loglevel'', log_level], fs_files (world st))]"
proof -
  let ?args = "[ffmpeg_path] @ input_args st @ inputs @ output_args st
                 @ [output_path, ''-loglevel'', log_level]"
  obtain r w1 where tb: "try_body env vcb ?args output_path (world st) = (r, w1)"
    by (cases "try_body env vcb ?args output_path (world st)")
  have w1: "tool_calls w1 = tool_calls (world st) @ [(?args, fs_files (world st))]"
    using try_body_calls [of env vcb ?args output_path "world st"] tb by simp
  show ?thesis
  proof (cases r)
    case None
    with tb w1 show ?thesis by (simp add: ffmpeg_attempt_def flow_state_def)
  next
    case (Some e)
    with tb w1 handle_exc_calls [of env output_path nr attempt e "st\<lparr>world := w1\<rparr>"]
    show ?thesis by (simp add: ffmpeg_attempt_def)
  qed
qed

lemma loop_calls_prefix:
  "\<exists>ys. tool_calls (world (snd
      (ffmpeg_loop env ffmpeg_path input_path inputs output_path log_level nr vcb as st)))
    = tool_calls (world st) @ ys"
proof (induction as arbitrary: st)
  case Nil
  show ?case by (simp add: add_log_def)
next
  case (Cons a as)
  let ?fl = "ffmpeg_attempt env ffmpeg_path inputs output_path log_level nr vcb a st"
  have c: "\<exists>ys. tool_calls (world (flow_state ?fl)) = tool_calls (world st) @ ys"
    using attempt_calls [of env ffmpeg_path inputs output_path log_level nr vcb a st] by blast
  show ?case
  proof (cases ?fl)
    case (Break st')
    with c show ?thesis by (simp add: flow_state_def)
  next
    case (Continue st')
    with c Cons.IH [of st'] show ?thesis by (auto simp add: flow_state_def)
  next
    case (Raise e st')
    with c show ?thesis by (simp add: flow_state_def)
  qed
qed

lemma loop_first_call:
  "\<exists>ys. tool_calls (world (snd
      (ffmpeg_loop env ffmpeg_path input_path inputs output_path log_level nr vcb (a # as) st)))
    = tool_calls (world st)
        @ ([ffmpeg_path] @ input_args st @ inputs @ output_args st
             @ [output_path, ''-loglevel'', log_level], fs_files (world st)) # ys"
proof -
  let ?fl = "ffmpeg_attempt env ffmpeg_path inputs output_path log_level nr vcb a st"
  note c = attempt_calls [of env ffmpeg_path inputs output_path log_level nr vcb a st]
  show ?thesis
  proof (cases ?fl)
    case (Break st')
    with c show ?thesis by (simp add: flow_state_def)
  next
    case (Continue st')
    with c loop_calls_prefix [of env ffmpeg_path input_path inputs output_path log_level nr vcb as st']
    show ?thesis by (auto simp add: flow_state_def)
  next
    case (Raise e st')
    with c show ?thesis by (simp add: flow_state_def)
  qed
qed

text \<open>
  A run of duration mismatches: \<open>R x\<close> is the pair of argument lists when the duration
  token is \<open>x\<close>.
\<close>

lemma attempt_duration:
  assumes tb: "fst (try_body env vcb
                 ([ffmpeg_path] @ input_args st @ inputs @ output_args st
                    @ [output_path, ''-loglevel'', log_level]) output_path (world st))
               = Some (FfmpegIncorrectDurationError t a)"
    and rt: "retarget env (input_args st) (output_args st) (float_sub env t a) = Inr (ia', oa')"
  shows "\<exists>st'. ffmpeg_attempt env ffmpeg_path inputs output_path log_level nr vcb attempt st
              = Continue st'
           \<and> input_args st' = ia' \<and> output_args st' = oa'
           \<and> length (tool_calls (world st')) = Suc (length (tool_calls (world st)))"
proof -
  let ?args = "[ffmpeg_path] @ input_args st @ inputs @ output_args st
                 @ [output_path, ''-loglevel'', log_level]"
  obtain w1 where tb': "try_body env vcb ?args output_path (world st)
                          = (Some (FfmpegIncorrectDurationError t a), w1)"
    using tb by (cases "try_body env vcb ?args output_path (world st)") simp
  have w1: "tool_calls w1 = tool_calls (world st) @ [(?args, fs_files (world st))]"
    using try_body_calls [of env vcb ?args output_path "world st"] tb' by simp
  show ?thesis
    using tb' w1 rt
    by (simp add: ffmpeg_attempt_def handle_exc_def Let_def add_log_def os_remove_def)
qed

lemma loop_duration_steps:
  assumes R: "\<And>x v d. float_of_str (env :: 'f externals) x = Some v \<Longrightarrow>
                retarget env (fst (R x)) (snd (R x)) d
                  = Inr (R (str_of_float env (float_add env v d)))"
  shows "compounded_duration env cur (map (\<lambda>m. float_sub env (fst m) (snd m)) ms) = Some new \<Longrightarrow>
         (input_args st, output_args st) = R cur \<Longrightarrow>
         \<forall>j<length ms. \<forall>args w'.
            length (tool_calls w') = length (tool_calls (world st)) + j \<longrightarrow>
            fst (try_body env vcb args output_path w')
              = Some (FfmpegIncorrectDurationError (fst (ms ! j)) (snd (ms ! j))) \<Longrightarrow>
         length ms \<le> length as \<Longrightarrow>
         \<exists>st'. ffmpeg_loop env ffmpeg_path input_path inputs output_path log_level nr vcb as st
                = ffmpeg_loop env ffmpeg_path input_path inputs output_path log_level nr vcb
                    (drop (length ms) as) st'
           \<and> (input_args st', output_args st') = R new
           \<and> length (tool_calls (world st')) = length (tool_calls (world st)) + length ms"
proof (induction ms arbitrary: cur st as)
  case Nil
  then show ?case by auto
next
  case (Cons m ms)
  from Cons.prems(4) obtain a as' where as: "as = a # as'" by (cases as) auto
  from Cons.prems(1) obtain v where
    v: "float_of_str env cur = Some v" and
    rest: "compounded_duration env (str_of_float env (float_add env v (float_sub env (fst m) (snd m))))
             (map (\<lambda>m. float_sub env (fst m) (snd m)) ms) = Some new"
    by (auto split: option.splits)
  let ?c1 = "str_of_float env (float_add env v (float_sub env (fst m) (snd m)))"
  let ?args = "[ffmpeg_path] @ input_args st @ inputs @ output_args st
                 @ [output_path, ''-loglevel'', log_level]"
  have tb: "fst (try_body env vcb ?args output_path (world st))
              = Some (FfmpegIncorrectDurationError (fst m) (snd m))"
    using Cons.prems(3) by force
  have rt: "retarget env (input_args st) (output_args st) (float_sub env (fst m) (snd m))
              = Inr (fst (R ?c1), snd (R ?c1))"
    using R [OF v, of "float_sub env (fst m) (snd m)"] Cons.prems(2) [symmetric] by simp
  from attempt_duration [OF tb rt, where attempt = a and nr = nr]
  obtain st1 where
    st1: "ffmpeg_attempt env ffmpeg_path inputs output_path log_level nr vcb a st = Continue st1"
    and a1: "(input_args st1, output_args st1) = R ?c1"
    and n1: "length (tool_calls (world st1)) = Suc (length (tool_calls (world st)))"
    by auto
  have mism: "\<forall>j<length ms. \<forall>args w'.
            length (tool_calls w') = length (tool_calls (world st1)) + j \<longrightarrow>
            fst (try_body env vcb args output_path w')
              = Some (FfmpegIncorrectDurationError (fst (ms ! j)) (snd (ms ! j)))"
  proof (intro allI impI)
    fix j args and w' :: "'f world"
    assume j: "j < length ms"
      and l: "length (tool_calls w') = length (tool_calls (world st1)) + j"
    from j have "Suc j < length (m # ms)" by simp
    moreover from l n1 have "length (tool_calls w') = length (tool_calls (world st)) + Suc j"
      by simp
    ultimately have "fst (try_body env vcb args output_path w')
        = Some (FfmpegIncorrectDurationError (fst ((m # ms) ! Suc j)) (snd ((m # ms) ! Suc j)))"
      using Cons.prems(3) by blast
    then show "fst (try_body env vcb args output_path w')
        = Some (FfmpegIncorrectDurationError (fst (ms ! j)) (snd (ms ! j)))" by simp
  qed
  from Cons.prems(4) as have len: "length ms \<le> length as'" by simp
  from Cons.IH [OF rest a1 mism len]
  obtain st' where
    "ffmpeg_loop env ffmpeg_path input_path inputs output_path log_level nr vcb as' st1
       = ffmpeg_loop env ffmpeg_path input_path inputs output_path log_level nr vcb
           (drop (length ms) as') st'"
    and "(input_args st', output_args st') = R new"
    and "length (tool_calls (world st')) = length (tool_calls (world st1)) + length ms"
    by blast
  with st1 n1 as show ?case by auto
qed

lemma ffmpeg_after_mismatches:
  fixes env :: "'f externals"
  assumes R: "\<And>x v d. float_of_str env x = Some v \<Longrightarrow>
                retarget env (fst (R x)) (snd (R x)) d
                  = Inr (R (str_of_float env (float_add env v d)))"
    and comp: "compounded_duration env cur (map (\<lambda>m. float_sub env (fst m) (snd m)) ms) = Some new"
    and start: "(ia, oa) = R cur"
    and inp: "expand_inputs input_path = (Inr inputs :: 'f exc + string list)"
    and mism: "\<forall>j<length ms. \<forall>args w'.
            length (tool_calls w') = length (tool_calls w) + j \<longrightarrow>
            fst (try_body env vcb args output_path w')
              = Some (FfmpegIncorrectDurationError (fst (ms ! j)) (snd (ms ! j)))"
    and more: "int (length ms) < num_retries"
  shows "length (tool_calls w) + length ms
           < length (tool_calls (snd (ffmpeg env ffmpeg_path input_path output_path
                (Some ia) (Some oa) log_level num_retries vcb w))) \<and>
         fst (tool_calls (snd (ffmpeg env ffmpeg_path input_path output_path
                (Some ia) (Some oa) log_level num_retries vcb w))
              ! (length (tool_calls w) + length ms))
           = [ffmpeg_path] @ fst (R new) @ inputs @ snd (R new)
               @ [output_path, ''-loglevel'', log_level]"
proof -
  let ?st0 = "\<lparr>input_args = ia, output_args = oa, last_err = None, world = w\<rparr>"
  let ?as = "py_range num_retries"
  have len: "length ms \<le> length ?as" using more by (simp add: length_py_range)
  have s0: "(input_args ?st0, output_args ?st0) = R cur" using start by simp
  have m0: "\<forall>j<length ms. \<forall>args w'.
            length (tool_calls w') = length (tool_calls (world ?st0)) + j \<longrightarrow>
            fst (try_body env vcb args output_path w')
              = Some (FfmpegIncorrectDurationError (fst (ms ! j)) (snd (ms ! j)))"
    using mism by simp
  from loop_duration_steps [of env R cur ms new ?st0 vcb output_path ?as
         ffmpeg_path input_path inputs log_level num_retries, OF R comp s0 m0 len]
  obtain st' where
    eq: "ffmpeg_loop env ffmpeg_path input_path inputs output_path log_level num_retries vcb
           ?as ?st0
         = ffmpeg_loop env ffmpeg_path input_path inputs output_path log_level num_retries vcb
             (drop (length ms) ?as) st'"
    and args: "(input_args st', output_args st') = R new"
    and n: "length (tool_calls (world st')) = length (tool_calls w) + length ms"
    by auto
  have "length ms < length ?as" using more by (simp add: length_py_range)
  then obtain a rest where dr: "drop (length ms) ?as = a # rest"
    by (cases "drop (length ms) ?as") auto
  from loop_first_call [of env ffmpeg_path input_path inputs output_path log_level
         num_retries vcb a rest st']
  obtain ys where
    calls: "tool_calls (world (snd
              (ffmpeg_loop env ffmpeg_path input_path inputs output_path log_level
                 num_retries vcb (a # rest) st')))
            = tool_calls (world st')
                @ ([ffmpeg_path] @ input_args st' @ inputs @ output_args st'
                     @ [output_path, ''-loglevel'', log_level], fs_files (world st')) # ys"
    by blast
  have fin: "tool_calls (snd (ffmpeg env ffmpeg_path input_path output_path
                (Some ia) (Some oa) log_level num_retries vcb w))
             = tool_calls (world st')
                @ ([ffmpeg_path] @ input_args st' @ inputs @ output_args st'
                     @ [output_path, ''-loglevel'', log_level], fs_files (world st')) # ys"
    using inp eq dr calls by (simp add: ffmpeg_def Let_def)
  from args have ia': "input_args st' = fst (R new)" and oa': "output_args st' = snd (R new)"
    by (metis fst_conv, metis snd_conv)
  show ?thesis
    unfolding fin using n [symmetric] by (simp add: nth_append ia' oa')
qed

section \<open>Lemmas about download_yt_video\<close>

text \<open>A call of \<open>ffmpeg\<close> only appends to the record of runs, and with a positive
  \<open>num_retries\<close> its first run is made with the arguments as passed.\<close>

lemma ffmpeg_calls_prefix:
  "\<exists>ys. tool_calls (snd (ffmpeg env ffmpeg_path input_path output_path ia0 oa0 log_level nr
             vcb w)) = tool_calls w @ ys"
proof (cases "expand_inputs input_path :: 'a exc + string list")
  case (Inl e)
  then show ?thesis by (simp add: ffmpeg_def)
next
  case (Inr inputs)
  then show ?thesis
    using loop_calls_prefix [of env ffmpeg_path input_path inputs output_path log_level nr vcb
        "py_range nr"
        "\<lparr>input_args = (case ia0 of None \<Rightarrow> [] | Some xs \<Rightarrow> xs),
          output_args = (case oa0 of None \<Rightarrow> [] | Some xs \<Rightarrow> xs),
          last_err = None, world = w\<rparr>"]
    by (simp add: ffmpeg_def Let_def)
qed

lemma ffmpeg_first_call:
  assumes "expand_inputs input_path = (Inr inputs :: 'f exc + string list)" and "0 < nr"
  shows "\<exists>ys. tool_calls (snd (ffmpeg (env :: 'f externals) ffmpeg_path input_path output_path
                  (Some ia) (Some oa) log_level nr vcb w))
          = tool_calls w
              @ ([ffmpeg_path] @ ia @ inputs @ oa @ [output_path, ''-loglevel'', log_level],
                 fs_files w) # ys"
proof -
  from assms(2) obtain a rest where r: "py_range nr = a # rest"
    by (cases "py_range nr") (auto simp add: py_range_Nil)
  show ?thesis
    using assms(1) r
      loop_first_call [of env ffmpeg_path input_path inputs output_path log_level nr vcb a rest
        "\<lparr>input_args = ia, output_args = oa, last_err = None, world = w\<rparr>"]
    by (simp add: ffmpeg_def Let_def)
qed

text \<open>
  Without a validation callback, and with a tool that raises SubprocessError only, no
  exception leaves \<open>ffmpeg\<close>.
\<close>

lemma handle_subprocess_no_raise:
  "handle_exc env output_path nr attempt (SubprocessError s) st \<noteq> Raise e st'"
  by (simp add: handle_exc_def Let_def)

lemma attempt_no_raise:
  assumes "\<forall>n args fs e. fst (run_command env n args fs) = Some e \<longrightarrow> (\<exists>s. e = SubprocessError s)"
  shows "ffmpeg_attempt env ffmpeg_path inputs output_path log_level nr None attempt st
           \<noteq> Raise e st'"
proof -
  let ?args = "[ffmpeg_path] @ input_args st @ inputs @ output_args st
                 @ [output_path, ''-loglevel'', log_level]"
  obtain r fs' where rc: "run_command env (length (tool_calls (world st))) ?args
                            (fs_files (world st)) = (r, fs')"
    by (cases "run_command env (length (tool_calls (world st))) ?args (fs_files (world st))")
  show ?thesis
  proof (cases r)
    case None
    with rc show ?thesis by (simp add: ffmpeg_attempt_def try_body_def call_tool_def)
  next
    case (Some x)
    with rc assms obtain s where "x = SubprocessError s"
      by (metis fst_conv)
    with rc Some show ?thesis
      by (simp add: ffmpeg_attempt_def try_body_def call_tool_def handle_subprocess_no_raise)
  qed
qed

lemma loop_no_raise:
  assumes "\<forall>n args fs e. fst (run_command env n args fs) = Some e \<longrightarrow> (\<exists>s. e = SubprocessError s)"
  shows "fst (ffmpeg_loop env ffmpeg_path input_path inputs output_path log_level nr None as st)
           = Inr ()"
proof (induction as arbitrary: st)
  case Nil
  show ?case by simp
next
  case (Cons a as)
  show ?case
  proof (cases "ffmpeg_attempt env ffmpeg_path inputs output_path log_level nr None a st")
    case (Break st')
    then show ?thesis by simp
  next
    case (Continue st')
    then show ?thesis using Cons.IH [of st'] by simp
  next
    case (Raise e st')
    with attempt_no_raise [OF assms, where attempt = a and st = st and e = e and st' = st'
        and ffmpeg_path = ffmpeg_path and inputs = inputs and output_path = output_path
        and log_level = log_level and nr = nr]
    show ?thesis by simp
  qed
qed

lemma ffmpeg_no_raise:
  assumes "\<forall>n args fs e. fst (run_command env n args fs) = Some e \<longrightarrow> (\<exists>s. e = SubprocessError s)"
    and "expand_inputs input_path = (Inr inputs :: 'f exc + string list)"
  shows "fst (ffmpeg (env :: 'f externals) ffmpeg_path input_path output_path ia0 oa0 log_level
                nr None w) = Inr ()"
  using assms(2) loop_no_raise [OF assms(1)]
  by (simp add: ffmpeg_def Let_def)

text \<open>The three removals at the start of \<open>download_yt_video\<close>.\<close>

lemma remove_three:
  "remove_if_exists c (remove_if_exists b (remove_if_exists a w))
     = w\<lparr>fs_files := fs_files w - {a, b, c}\<rparr>"
  by (auto simp add: remove_if_exists_def os_remove_def os_path_exists_def
        intro!: world.equality)

text \<open>Facts for evaluating the definitions on the concrete environment.\<close>

lemmas eval_paths = videowithaudio_path_def video_path_def audio_path_def os_path_join_def
  join_step_def endswith_def str_int_def str_nat.simps digit_char_def str_tenths_def

lemmas eval_env = decimal_env_def tool_ok_def empty_world_def cli_kwargs_def

lemmas eval_ffmpeg = ffmpeg_def expand_inputs_def py_range_def ffmpeg_attempt_def try_body_def
  call_tool_def handle_exc_def add_log_def Let_def upto.simps rstrip_def py_isspace_def
  startswith_def remove_if_exists_def os_path_exists_def os_remove_def

lemma tool_ok_only_subprocess:
  "\<forall>n args fs e. fst (run_command (decimal_env tool_ok) n args fs) = Some e
     \<longrightarrow> (\<exists>s. e = SubprocessError s)"
  by (simp add: decimal_env_def tool_ok_def)

lemma tool_http_only_subprocess:
  "\<forall>n args fs e. fst (run_command (decimal_env tool_http_503) n args fs) = Some e
     \<longrightarrow> (\<exists>s. e = SubprocessError s)"
  by (auto simp add: decimal_env_def tool_http_503_def)

section \<open>Properties of the retry loop\<close>

text \<open>
  C10. With \<open>num_retries = 0\<close> the loop body is not run: no run of the external tool is
  made, nothing is removed, and the call logs the maximum-retries message with the last
  error \<open>None\<close> and returns.
\<close>

theorem ffmpeg_zero_retries:
  "expand_inputs input_path = (Inr inputs :: 'f exc + string list) \<Longrightarrow>
   ffmpeg (env :: 'f externals) ffmpeg_path input_path output_path ia oa log_level 0 vcb w =
     (Inr (), w\<lparr>logged := logged w @ [ErrorMaxRetries 0 input_path None]\<rparr>)"
  by (simp add: ffmpeg_def py_range_def add_log_def)

theorem ffmpeg_zero_retries_witness:
  "expand_inputs (PathStr ''in'') = (Inr [''-i'', ''in''] :: int exc + string list) \<and>
   ffmpeg (decimal_env tool_ok) ''ffmpeg'' (PathStr ''in'') ''out'' None None ''error'' 0 None
       empty_world =
     (Inr (), empty_world\<lparr>logged := [ErrorMaxRetries 0 (PathStr ''in'') None]\<rparr>)"
  using ffmpeg_zero_retries [of "PathStr ''in''" "[''-i'', ''in'']" "decimal_env tool_ok"
      "''ffmpeg''" "''out''" None None "''error''" None empty_world]
  by (simp add: expand_inputs_def empty_world_def)

text \<open>
  C6. When the error output of an attempt ends with \<open>already exists. Exiting.\<close>, the loop
  stops there: \<open>ffmpeg\<close> returns without an exception, the attempts that remain are not
  made (the run of this attempt is the last one recorded), the files are those the tool
  left, so the output file is not removed, and the only log record added is the
  information that the output exists.
\<close>

theorem ffmpeg_already_exists_stops:
  assumes "run_command env (length (tool_calls (world st)))
             ([ffmpeg_path] @ input_args st @ inputs @ output_args st
                @ [output_path, ''-loglevel'', log_level]) (fs_files (world st))
           = (Some (SubprocessError cmd_stderr), fs')"
    and "endswith cmd_stderr ''already exists. Exiting.''"
  shows "ffmpeg_loop env ffmpeg_path input_path inputs output_path log_level num_retries vcb
           (attempt # rest) st =
         (Inr (),
          st\<lparr>last_err := Some (SubprocessError cmd_stderr),
             world := (world st)\<lparr>fs_files := fs',
                 tool_calls := tool_calls (world st)
                   @ [([ffmpeg_path] @ input_args st @ inputs @ output_args st
                        @ [output_path, ''-loglevel'', log_level], fs_files (world st))],
                 logged := logged (world st) @ [InfoAlreadyExists output_path]\<rparr>\<rparr>)"
  using assms(2) marker_rstrip [OF assms(2)]
  by (simp add: attempt_subprocess [OF assms(1)] handle_exc_def add_log_def)

theorem ffmpeg_already_exists_stops_witness:
  "endswith ''File out already exists. Exiting.'' ''already exists. Exiting.'' \<and>
   ffmpeg_loop (decimal_env tool_exists) ''ffmpeg'' (PathStr ''in'') [''-i'', ''in''] ''out''
       ''error'' 3 None [0, 1, 2] (start_state {''out''}) =
     (Inr (),
      \<lparr>input_args = [''-n''], output_args = [''-t'', ''10''],
       last_err = Some (SubprocessError ''File out already exists. Exiting.''),
       world = \<lparr>fs_files = {''out''},
                tool_calls = [([''ffmpeg'', ''-n'', ''-i'', ''in'', ''-t'', ''10'', ''out'',
                                ''-loglevel'', ''error''], {''out''})],
                logged = [InfoAlreadyExists ''out''], printed = []\<rparr>\<rparr>)"
proof -
  have e: "endswith ''File out already exists. Exiting.'' ''already exists. Exiting.''"
    by (simp add: endswith_def)
  have r: "run_command (decimal_env tool_exists)
             (length (tool_calls (world (start_state {''out''}))))
             ([''ffmpeg''] @ input_args (start_state {''out''}) @ [''-i'', ''in'']
                @ output_args (start_state {''out''}) @ [''out'', ''-loglevel'', ''error''])
             (fs_files (world (start_state {''out''})))
           = (Some (SubprocessError ''File out already exists. Exiting.''), {''out''})"
    by (simp add: decimal_env_def tool_exists_def start_state_def)
  show ?thesis
    using e ffmpeg_already_exists_stops [OF r e, of "PathStr ''in''" 3 None 0 "[1, 2]"]
    by (simp add: start_state_def)
qed

text \<open>
  C5, as the code has it. When an attempt fails with an error output that matches the HTTP
  pattern and does not end with the already-exists marker, the iteration ends with
  \<open>continue\<close>: the loop goes on with the attempts that remain, the argument lists and the
  log unchanged, \<open>last_err\<close> set, and the files exactly those the tool left. The output
  file is not removed on this path.
\<close>

theorem ffmpeg_http_error_no_cleanup:
  assumes "run_command env (length (tool_calls (world st)))
             ([ffmpeg_path] @ input_args st @ inputs @ output_args st
                @ [output_path, ''-loglevel'', log_level]) (fs_files (world st))
           = (Some (SubprocessError cmd_stderr), fs')"
    and "\<not> endswith (rstrip cmd_stderr) ''already exists. Exiting.''"
    and "HTTP_ERR_PATTERN env (rstrip cmd_stderr)"
  shows "ffmpeg_loop env ffmpeg_path input_path inputs output_path log_level num_retries vcb
           (attempt # rest) st =
         ffmpeg_loop env ffmpeg_path input_path inputs output_path log_level num_retries vcb
           rest
           (st\<lparr>world := (world st)\<lparr>fs_files := fs',
                 tool_calls := tool_calls (world st)
                   @ [([ffmpeg_path] @ input_args st @ inputs @ output_args st
                        @ [output_path, ''-loglevel'', log_level], fs_files (world st))]\<rparr>,
              last_err := Some (SubprocessError cmd_stderr)\<rparr>)"
  using assms by (rule loop_http_step)

theorem ffmpeg_http_error_no_cleanup_witness:
  "HTTP_ERR_PATTERN (decimal_env tool_http_503) (rstrip ''HTTP error 503 Service Unavailable'') \<and>
   ffmpeg_loop (decimal_env tool_http_503) ''ffmpeg'' (PathStr ''in'') [''-i'', ''in''] ''out''
       ''error'' 3 None [0] (start_state {}) =
     ffmpeg_loop (decimal_env tool_http_503) ''ffmpeg'' (PathStr ''in'') [''-i'', ''in''] ''out''
       ''error'' 3 None []
       \<lparr>input_args = [''-n''], output_args = [''-t'', ''10''],
        last_err = Some (SubprocessError ''HTTP error 503 Service Unavailable''),
        world = \<lparr>fs_files = {''out''},
                tool_calls = [([''ffmpeg'', ''-n'', ''-i'', ''in'', ''-t'', ''10'', ''out'',
                                ''-loglevel'', ''error''], {})],
                logged = [], printed = []\<rparr>\<rparr>"
proof -
  have s: "rstrip ''HTTP error 503 Service Unavailable'' = ''HTTP error 503 Service Unavailable''"
    by (simp add: rstrip_def py_isspace_def)
  have h: "HTTP_ERR_PATTERN (decimal_env tool_http_503)
             (rstrip ''HTTP error 503 Service Unavailable'')"
    unfolding s by (simp add: decimal_env_def startswith_def)
  have n: "\<not> endswith (rstrip ''HTTP error 503 Service Unavailable'') ''already exists. Exiting.''"
    unfolding s by (simp add: endswith_def)
  have r: "run_command (decimal_env tool_http_503)
             (length (tool_calls (world (start_state {}))))
             ([''ffmpeg''] @ input_args (start_state {}) @ [''-i'', ''in'']
                @ output_args (start_state {}) @ [''out'', ''-loglevel'', ''error''])
             (fs_files (world (start_state {})))
           = (Some (SubprocessError ''HTTP error 503 Service Unavailable''), {''out''})"
    by (simp add: decimal_env_def tool_http_503_def start_state_def)
  show ?thesis
    using h ffmpeg_http_error_no_cleanup [OF r n h, of "PathStr ''in''" 3 None 0 "[]"]
    by (simp add: start_state_def)
qed

text \<open>
  C5 as stated fails: a tool that writes its output file and fails with an HTTP 503
  message is run a second time with that file still in place (the second record of
  \<open>tool_calls\<close> shows the files the run started with).
\<close>

theorem ffmpeg_http_error_keeps_output:
  "tool_calls (snd (ffmpeg (decimal_env tool_http_503) ''ffmpeg'' (PathStr ''in'') ''out''
       (Some [''-n'']) (Some [''-t'', ''10'']) ''error'' 2 None empty_world))
   = [([''ffmpeg'', ''-n'', ''-i'', ''in'', ''-t'', ''10'', ''out'', ''-loglevel'', ''error''], {}),
      ([''ffmpeg'', ''-n'', ''-i'', ''in'', ''-t'', ''10'', ''out'', ''-loglevel'', ''error''],
       {''out''})]"
  by (simp add: ffmpeg_def expand_inputs_def py_range_def ffmpeg_attempt_def try_body_def
        call_tool_def handle_exc_def decimal_env_def tool_http_503_def empty_world_def
        rstrip_def py_isspace_def endswith_def startswith_def add_log_def Let_def upto.simps)

text \<open>
  C2. When every run of the tool fails with an error output that matches the HTTP pattern
  (and is not the already-exists message), \<open>ffmpeg\<close> makes exactly \<open>num_retries\<close> runs
  (none when \<open>num_retries\<close> is not positive), logs the maximum-retries record with the
  error of the last run, and returns without an exception: the value the caller gets is
  the one it gets after a success.
\<close>

theorem ffmpeg_http_failures_exhaust_retries:
  assumes "expand_inputs input_path = (Inr inputs :: 'f exc + string list)"
    and "\<And>n args fs. fst (run_command (env :: 'f externals) n args fs) = Some (SubprocessError (errs n))"
    and "\<And>n. HTTP_ERR_PATTERN env (rstrip (errs n))"
    and "\<And>n. \<not> endswith (rstrip (errs n)) ''already exists. Exiting.''"
  shows "fst (ffmpeg env ffmpeg_path input_path output_path ia oa log_level nr vcb w) = Inr () \<and>
         length (tool_calls (snd (ffmpeg env ffmpeg_path input_path output_path ia oa log_level nr vcb w)))
           = length (tool_calls w) + nat nr \<and>
         logged (snd (ffmpeg env ffmpeg_path input_path output_path ia oa log_level nr vcb w))
           = logged w @ [ErrorMaxRetries nr input_path
               (if nr \<le> 0 then None
                else Some (SubprocessError (errs (length (tool_calls w) + nat nr - 1))))]"
  using loop_all_http [of env errs ffmpeg_path input_path inputs output_path log_level nr vcb
       "py_range nr", OF assms(2,3,4)] assms(1)
  by (simp add: ffmpeg_def Let_def length_py_range py_range_Nil)

theorem ffmpeg_http_failures_exhaust_retries_witness:
  "fst (ffmpeg (decimal_env tool_http_503) ''ffmpeg'' (PathStr ''in'') ''out''
       (Some [''-n'']) (Some [''-t'', ''10'']) ''error'' 3 None empty_world) = Inr () \<and>
   length (tool_calls (snd (ffmpeg (decimal_env tool_http_503) ''ffmpeg'' (PathStr ''in'') ''out''
       (Some [''-n'']) (Some [''-t'', ''10'']) ''error'' 3 None empty_world))) = 3 \<and>
   logged (snd (ffmpeg (decimal_env tool_http_503) ''ffmpeg'' (PathStr ''in'') ''out''
       (Some [''-n'']) (Some [''-t'', ''10'']) ''error'' 3 None empty_world))
     = [ErrorMaxRetries 3 (PathStr ''in'')
          (Some (SubprocessError ''HTTP error 503 Service Unavailable''))]"
proof -
  have s: "rstrip ''HTTP error 503 Service Unavailable'' = ''HTTP error 503 Service Unavailable''"
    by (simp add: rstrip_def py_isspace_def)
  have i: "expand_inputs (PathStr ''in'') = (Inr [''-i'', ''in''] :: int exc + string list)"
    by (simp add: expand_inputs_def)
  have r: "\<And>n args fs. fst (run_command (decimal_env tool_http_503) n args fs)
             = Some (SubprocessError ((\<lambda>n. ''HTTP error 503 Service Unavailable'') n))"
    by (simp add: decimal_env_def tool_http_503_def)
  have h: "\<And>n. HTTP_ERR_PATTERN (decimal_env tool_http_503)
             (rstrip ((\<lambda>n. ''HTTP error 503 Service Unavailable'') (n::nat)))"
    unfolding s by (simp add: decimal_env_def startswith_def)
  have n: "\<And>n. \<not> endswith (rstrip ((\<lambda>n. ''HTTP error 503 Service Unavailable'') (n::nat)))
             ''already exists. Exiting.''"
    unfolding s by (simp add: endswith_def)
  show ?thesis
    using ffmpeg_http_failures_exhaust_retries [OF i r h n, of "''ffmpeg''" "''out''" "Some [''-n'']" "Some [''-t'', ''10'']"
        "''error''" 3 None empty_world]
    by (simp add: empty_world_def)
qed

text \<open>
  C1. Let the first \<open>length ms\<close> attempts each report a duration mismatch, attempt \<open>j\<close> with
  target \<open>fst (ms ! j)\<close> and actual \<open>snd (ms ! j)\<close>, and let a further attempt be allowed.
  Let \<open>-t\<close> be present, in \<open>input_args\<close> or else in \<open>output_args\<close>, followed by the token
  \<open>cur\<close>. Then the next run of the tool is made with that token replaced by the
  compounded value: each mismatch adds \<open>target - actual\<close> to the value written by the one
  before. With \<open>-t 10\<close> and the mismatches 0.5 and 0.2 the second run has \<open>-t 10.5\<close> and the
  third \<open>-t 10.7\<close>, as the evaluation after the theorem shows.
\<close>

theorem ffmpeg_duration_adjust_cumulative:
  fixes env :: "'f externals"
  assumes inp: "expand_inputs input_path = (Inr inputs :: 'f exc + string list)"
    and mism: "\<forall>j<length ms. \<forall>args w'.
            length (tool_calls w') = length (tool_calls w) + j \<longrightarrow>
            fst (try_body env vcb args output_path w')
              = Some (FfmpegIncorrectDurationError (fst (ms ! j)) (snd (ms ! j)))"
    and more: "int (length ms) < num_retries"
    and slot: "(list_index ia ''-t'' = Some i \<and> Suc i < length ia \<and> cur = ia ! Suc i
                  \<and> ia' = ia[Suc i := new] \<and> oa' = oa)
               \<or> (list_index ia ''-t'' = None \<and> list_index oa ''-t'' = Some i
                  \<and> Suc i < length oa \<and> cur = oa ! Suc i
                  \<and> ia' = ia \<and> oa' = oa[Suc i := new])"
    and comp: "compounded_duration env cur (map (\<lambda>m. float_sub env (fst m) (snd m)) ms) = Some new"
  shows "length (tool_calls w) + length ms
           < length (tool_calls (snd (ffmpeg env ffmpeg_path input_path output_path
                (Some ia) (Some oa) log_level num_retries vcb w))) \<and>
         fst (tool_calls (snd (ffmpeg env ffmpeg_path input_path output_path
                (Some ia) (Some oa) log_level num_retries vcb w))
              ! (length (tool_calls w) + length ms))
           = [ffmpeg_path] @ ia' @ inputs @ oa' @ [output_path, ''-loglevel'', log_level]"
  using slot
proof (elim disjE conjE)
  assume h: "list_index ia ''-t'' = Some i" "Suc i < length ia" "cur = ia ! Suc i"
    "ia' = ia[Suc i := new]" "oa' = oa"
  let ?R = "\<lambda>x. (ia[Suc i := x], oa)"
  have R: "\<And>x v d. float_of_str env x = Some v \<Longrightarrow>
                retarget env (fst (?R x)) (snd (?R x)) d
                  = Inr (?R (str_of_float env (float_add env v d)))"
    using retarget_input [OF h(1) h(2)] by simp
  have start: "(ia, oa) = ?R cur" using h(3) by simp
  from ffmpeg_after_mismatches [of env ?R, OF R comp start inp mism more] h(4,5)
  show ?thesis by simp
next
  assume h: "list_index ia ''-t'' = None" "list_index oa ''-t'' = Some i" "Suc i < length oa"
    "cur = oa ! Suc i" "ia' = ia" "oa' = oa[Suc i := new]"
  let ?R = "\<lambda>x. (ia, oa[Suc i := x])"
  have R: "\<And>x v d. float_of_str env x = Some v \<Longrightarrow>
                retarget env (fst (?R x)) (snd (?R x)) d
                  = Inr (?R (str_of_float env (float_add env v d)))"
    using retarget_output [OF h(1) h(2) h(3)] by simp
  have start: "(ia, oa) = ?R cur" using h(4) by simp
  from ffmpeg_after_mismatches [of env ?R, OF R comp start inp mism more] h(5,6)
  show ?thesis by simp
qed

theorem ffmpeg_duration_adjust_cumulative_witness:
  "compounded_duration (decimal_env tool_ok) ''10'' [5] = Some ''10.5'' \<and>
   compounded_duration (decimal_env tool_ok) ''10'' [5, 2] = Some ''10.7'' \<and>
   fst (tool_calls (snd (ffmpeg (decimal_env tool_ok) ''ffmpeg'' (PathStr ''in'') ''out''
         (Some [''-n'']) (Some [''-t'', ''10'', ''-f'', ''wav'']) ''error'' 3
         (Some mismatch_twice) empty_world)) ! 1)
     = [''ffmpeg'', ''-n'', ''-i'', ''in'', ''-t'', ''10.5'', ''-f'', ''wav'', ''out'',
        ''-loglevel'', ''error''] \<and>
   fst (tool_calls (snd (ffmpeg (decimal_env tool_ok) ''ffmpeg'' (PathStr ''in'') ''out''
         (Some [''-n'']) (Some [''-t'', ''10'', ''-f'', ''wav'']) ''error'' 3
         (Some mismatch_twice) empty_world)) ! 2)
     = [''ffmpeg'', ''-n'', ''-i'', ''in'', ''-t'', ''10.7'', ''-f'', ''wav'', ''out'',
        ''-loglevel'', ''error'']"
proof -
  let ?env = "decimal_env tool_ok"
  have i: "expand_inputs (PathStr ''in'') = (Inr [''-i'', ''in''] :: int exc + string list)"
    by (simp add: expand_inputs_def)
  have k1: "compounded_duration ?env ''10'' (map (\<lambda>m. float_sub ?env (fst m) (snd m)) [(100, 95)])
              = Some ''10.5''"
    by (simp add: decimal_env_def tenths_of_str_def digits_value_def is_digit_def
          str_tenths_def str_nat.simps digit_char_def)
  have k2: "compounded_duration ?env ''10'' (map (\<lambda>m. float_sub ?env (fst m) (snd m)) [(100, 95), (100, 98)])
              = Some ''10.7''"
    by (simp add: decimal_env_def tenths_of_str_def digits_value_def is_digit_def
          str_tenths_def str_nat.simps digit_char_def)
  have m2: "\<forall>j<length [(100::int, 95::int), (100, 98)]. \<forall>args w'.
            length (tool_calls w') = length (tool_calls empty_world) + j \<longrightarrow>
            fst (try_body ?env (Some mismatch_twice) args ''out'' w')
              = Some (FfmpegIncorrectDurationError (fst ([(100, 95), (100, 98)] ! j))
                       (snd ([(100, 95), (100, 98)] ! j)))"
    by (auto simp add: try_body_def call_tool_def decimal_env_def tool_ok_def
          mismatch_twice_def empty_world_def less_Suc_eq)
  have m1: "\<forall>j<length [(100::int, 95::int)]. \<forall>args w'.
            length (tool_calls w') = length (tool_calls empty_world) + j \<longrightarrow>
            fst (try_body ?env (Some mismatch_twice) args ''out'' w')
              = Some (FfmpegIncorrectDurationError (fst ([(100, 95)] ! j))
                       (snd ([(100, 95)] ! j)))"
    by (auto simp add: try_body_def call_tool_def decimal_env_def tool_ok_def
          mismatch_twice_def empty_world_def)
  have s1: "(list_index [''-n''] ''-t'' = Some 0 \<and> Suc 0 < length [''-n'']
              \<and> ''10'' = [''-n''] ! Suc 0
              \<and> [''-n''] = [''-n''][Suc 0 := ''10.5'']
              \<and> [''-t'', ''10.5'', ''-f'', ''wav''] = [''-t'', ''10'', ''-f'', ''wav''])
            \<or> (list_index [''-n''] ''-t'' = None
              \<and> list_index [''-t'', ''10'', ''-f'', ''wav''] ''-t'' = Some 0
              \<and> Suc 0 < length [''-t'', ''10'', ''-f'', ''wav'']
              \<and> ''10'' = [''-t'', ''10'', ''-f'', ''wav''] ! Suc 0
              \<and> [''-n''] = [''-n'']
              \<and> [''-t'', ''10.5'', ''-f'', ''wav'']
                  = [''-t'', ''10'', ''-f'', ''wav''][Suc 0 := ''10.5''])"
    by simp
  have s2: "(list_index [''-n''] ''-t'' = Some 0 \<and> Suc 0 < length [''-n'']
              \<and> ''10'' = [''-n''] ! Suc 0
              \<and> [''-n''] = [''-n''][Suc 0 := ''10.7'']
              \<and> [''-t'', ''10.7'', ''-f'', ''wav''] = [''-t'', ''10'', ''-f'', ''wav''])
            \<or> (list_index [''-n''] ''-t'' = None
              \<and> list_index [''-t'', ''10'', ''-f'', ''wav''] ''-t'' = Some 0
              \<and> Suc 0 < length [''-t'', ''10'', ''-f'', ''wav'']
              \<and> ''10'' = [''-t'', ''10'', ''-f'', ''wav''] ! Suc 0
              \<and> [''-n''] = [''-n'']
              \<and> [''-t'', ''10.7'', ''-f'', ''wav'']
                  = [''-t'', ''10'', ''-f'', ''wav''][Suc 0 := ''10.7''])"
    by simp
  have more1: "int (length [(100::int, 95::int)]) < 3" by simp
  have more2: "int (length [(100::int, 95::int), (100, 98)]) < 3" by simp
  note t1 = ffmpeg_duration_adjust_cumulative [OF i m1 more1 s1 k1,
      of "''ffmpeg''" "''error''"]
  note t2 = ffmpeg_duration_adjust_cumulative [OF i m2 more2 s2 k2,
      of "''ffmpeg''" "''error''"]
  have g1: "compounded_duration ?env ''10'' [5] = Some ''10.5''"
    using k1 by (simp add: decimal_env_def)
  have g2: "compounded_duration ?env ''10'' [5, 2] = Some ''10.7''"
    using k2 by (simp add: decimal_env_def)
  have g3: "fst (tool_calls (snd (ffmpeg ?env ''ffmpeg'' (PathStr ''in'') ''out''
         (Some [''-n'']) (Some [''-t'', ''10'', ''-f'', ''wav'']) ''error'' 3
         (Some mismatch_twice) empty_world)) ! 1)
     = [''ffmpeg'', ''-n'', ''-i'', ''in'', ''-t'', ''10.5'', ''-f'', ''wav'', ''out'',
        ''-loglevel'', ''error'']"
    using t1 by (simp add: empty_world_def)
  have g4: "fst (tool_calls (snd (ffmpeg ?env ''ffmpeg'' (PathStr ''in'') ''out''
         (Some [''-n'']) (Some [''-t'', ''10'', ''-f'', ''wav'']) ''error'' 3
         (Some mismatch_twice) empty_world)) ! 2)
     = [''ffmpeg'', ''-n'', ''-i'', ''in'', ''-t'', ''10.7'', ''-f'', ''wav'', ''out'',
        ''-loglevel'', ''error'']"
    using t2 by (simp add: empty_world_def numeral_2_eq_2)
  from g1 g2 g3 g4 show ?thesis by blast
qed

section \<open>Properties of download_yt_video\<close>

text \<open>
  C4, as the code has it. For an identifier whose length is not 11, \<open>download_yt_video\<close>
  runs the external tool not at all, logs nothing, prints the identifier and returns
  \<open>(None, None)\<close>; the three output paths of the request are removed first, since the
  removals come before the length check, and the rest of the filesystem is unchanged.
\<close>

theorem download_yt_video_malformed_id:
  "length ytid \<noteq> 11 \<Longrightarrow>
   download_yt_video env ytid ts_start ts_end output_dir ffmpeg_path ffprobe_path kw w =
     (Inr (None, None),
      w\<lparr>fs_files := fs_files w -
            {videowithaudio_path output_dir (get_media_filename env ytid ts_start ts_end)
               (kw_video_format kw),
             video_path output_dir (get_media_filename env ytid ts_start ts_end)
               (kw_video_format kw),
             audio_path output_dir (get_media_filename env ytid ts_start ts_end)
               (kw_audio_format kw)},
         printed := printed w @ [ytid]\<rparr>)"
  by (simp add: download_yt_video_def Let_def remove_three)

theorem download_yt_video_malformed_id_witness:
  "length ''short'' \<noteq> 11 \<and>
   download_yt_video (decimal_env tool_ok) ''short'' 300 400 ''/data'' ''ffmpeg'' ''ffprobe''
       cli_kwargs stale_world =
     (Inr (None, None),
      \<lparr>fs_files = {}, tool_calls = [], logged = [], printed = [''short'']\<rparr>)"
proof -
  have l: "length ''short'' \<noteq> 11" by simp
  show ?thesis
    using l download_yt_video_malformed_id [OF l, of "decimal_env tool_ok" 300 400 "''/data''" "''ffmpeg''" "''ffprobe''"
        cli_kwargs stale_world]
    by (simp add: eval_paths eval_env stale_world_def)
qed

text \<open>
  C4 as stated fails: with the three output files of a five-character identifier in
  place, the call leaves none of them.
\<close>

theorem download_yt_video_malformed_id_removes_files:
  "length ''short'' \<noteq> 11 \<and>
   fs_files stale_world = {''/data/video_audio/short_30000_40000.mp4'',
                           ''/data/video/short_30000_40000.mp4'',
                           ''/data/audio/short_30000_40000.wav''} \<and>
   fs_files (snd (download_yt_video (decimal_env tool_ok) ''short'' 300 400 ''/data''
                    ''ffmpeg'' ''ffprobe'' cli_kwargs stale_world)) = {}"
  by (simp add: download_yt_video_def eval_paths eval_env stale_world_def
        remove_if_exists_def os_path_exists_def os_remove_def Let_def)

text \<open>
  C3, as the code has it. For an identifier of length 11 whose URL is resolved and a video
  codec other than \<open>h264\<close>, \<open>download_yt_video\<close> first makes the audio-extraction call
  of \<open>ffmpeg\<close>. When that call returns, NotImplementedError is raised; when that call
  itself raises, its exception leaves the function instead. Either way the world
  \<open>download_yt_video\<close> leaves is the one the audio call left, so no run for the video
  extraction or the mux is made.
\<close>

theorem download_yt_video_codec_after_audio:
  fixes env :: "'f externals"
  assumes "length ytid = 11"
    and "video_url env ytid = Inr url"
    and "kw_video_codec kw \<noteq> ''h264''"
  shows "download_yt_video env ytid ts_start ts_end output_dir ffmpeg_path ffprobe_path kw w =
     ((case fst (ffmpeg env ffmpeg_path (PathStr url)
             (audio_path output_dir (get_media_filename env ytid ts_start ts_end)
                (kw_audio_format kw))
             (Some [''-n'', ''-ss'', str_of_float env ts_start])
             (Some (audio_output_args kw)) ''error'' (kw_num_retries kw) None
             (w\<lparr>fs_files := fs_files w -
                {videowithaudio_path output_dir (get_media_filename env ytid ts_start ts_end)
                   (kw_video_format kw),
                 video_path output_dir (get_media_filename env ytid ts_start ts_end)
                   (kw_video_format kw),
                 audio_path output_dir (get_media_filename env ytid ts_start ts_end)
                   (kw_audio_format kw)}\<rparr>)) of
         Inl e \<Rightarrow> Inl e
       | Inr u \<Rightarrow> Inl (NotImplementedError (kw_video_codec kw))),
      snd (ffmpeg env ffmpeg_path (PathStr url)
             (audio_path output_dir (get_media_filename env ytid ts_start ts_end)
                (kw_audio_format kw))
             (Some [''-n'', ''-ss'', str_of_float env ts_start])
             (Some (audio_output_args kw)) ''error'' (kw_num_retries kw) None
             (w\<lparr>fs_files := fs_files w -
                {videowithaudio_path output_dir (get_media_filename env ytid ts_start ts_end)
                   (kw_video_format kw),
                 video_path output_dir (get_media_filename env ytid ts_start ts_end)
                   (kw_video_format kw),
                 audio_path output_dir (get_media_filename env ytid ts_start ts_end)
                   (kw_audio_format kw)}\<rparr>)))"
proof -
  let ?audio = "ffmpeg env ffmpeg_path (PathStr url)
             (audio_path output_dir (get_media_filename env ytid ts_start ts_end)
                (kw_audio_format kw))
             (Some [''-n'', ''-ss'', str_of_float env ts_start])
             (Some (audio_output_args kw)) ''error'' (kw_num_retries kw) None
             (w\<lparr>fs_files := fs_files w -
                {videowithaudio_path output_dir (get_media_filename env ytid ts_start ts_end)
                   (kw_video_format kw),
                 video_path output_dir (get_media_filename env ytid ts_start ts_end)
                   (kw_video_format kw),
                 audio_path output_dir (get_media_filename env ytid ts_start ts_end)
                   (kw_audio_format kw)}\<rparr>)"
  obtain r w4 where a: "?audio = (r, w4)" by (cases ?audio)
  show ?thesis
  proof (cases r)
    case (Inl e)
    with assms a show ?thesis
      by (simp add: download_yt_video_def Let_def remove_three)
  next
    case (Inr u)
    with assms a show ?thesis
      by (simp add: download_yt_video_def Let_def remove_three)
  qed
qed

text \<open>
  Two evaluations: with a tool that succeeds the audio extraction is run and
  NotImplementedError is raised; with a tool that cannot be started the exception of the
  audio run leaves the function, and that run is the only one.
\<close>

theorem download_yt_video_codec_after_audio_witness:
  "download_yt_video (decimal_env tool_ok) ''abcdefghijk'' 300 400 ''/data'' ''ffmpeg''
       ''ffprobe'' vp9_kwargs empty_world =
     (Inl (NotImplementedError ''vp9''),
      \<lparr>fs_files = {},
       tool_calls =
         [([''ffmpeg'', ''-n'', ''-ss'', ''30.0'', ''-i'', ''https://media.example/abcdefghijk'',
            ''-t'', ''10'', ''-ar'', ''48000'', ''-vn'', ''-ac'', ''2'', ''-sample_fmt'', ''s16'',
            ''-f'', ''wav'', ''-acodec'', ''pcm_s16le'',
            ''/data/audio/abcdefghijk_30000_40000.wav'', ''-loglevel'', ''error''], {})],
       logged = [], printed = []\<rparr>) \<and>
   download_yt_video (decimal_env tool_oserror) ''abcdefghijk'' 300 400 ''/data'' ''ffmpeg''
       ''ffprobe'' vp9_kwargs empty_world =
     (Inl (OtherException ''FileNotFoundError''),
      \<lparr>fs_files = {},
       tool_calls =
         [([''ffmpeg'', ''-n'', ''-ss'', ''30.0'', ''-i'', ''https://media.example/abcdefghijk'',
            ''-t'', ''10'', ''-ar'', ''48000'', ''-vn'', ''-ac'', ''2'', ''-sample_fmt'', ''s16'',
            ''-f'', ''wav'', ''-acodec'', ''pcm_s16le'',
            ''/data/audio/abcdefghijk_30000_40000.wav'', ''-loglevel'', ''error''], {})],
       logged = [], printed = []\<rparr>)"
proof -
  have l: "length ''abcdefghijk'' = 11" by simp
  have c: "kw_video_codec vp9_kwargs \<noteq> ''h264''"
    by (simp add: vp9_kwargs_def cli_kwargs_def)
  have u1: "video_url (decimal_env tool_ok) ''abcdefghijk''
              = Inr ''https://media.example/abcdefghijk''"
    by (simp add: decimal_env_def)
  have u2: "video_url (decimal_env tool_oserror) ''abcdefghijk''
              = Inr ''https://media.example/abcdefghijk''"
    by (simp add: decimal_env_def)
  have g1: "download_yt_video (decimal_env tool_ok) ''abcdefghijk'' 300 400 ''/data'' ''ffmpeg''
       ''ffprobe'' vp9_kwargs empty_world =
     (Inl (NotImplementedError ''vp9''),
      \<lparr>fs_files = {},
       tool_calls =
         [([''ffmpeg'', ''-n'', ''-ss'', ''30.0'', ''-i'', ''https://media.example/abcdefghijk'',
            ''-t'', ''10'', ''-ar'', ''48000'', ''-vn'', ''-ac'', ''2'', ''-sample_fmt'', ''s16'',
            ''-f'', ''wav'', ''-acodec'', ''pcm_s16le'',
            ''/data/audio/abcdefghijk_30000_40000.wav'', ''-loglevel'', ''error''], {})],
       logged = [], printed = []\<rparr>)"
    unfolding download_yt_video_codec_after_audio [OF l u1 c, where ts_start = 300
        and ts_end = 400 and output_dir = "''/data''" and ffmpeg_path = "''ffmpeg''"
        and ffprobe_path = "''ffprobe''" and w = empty_world]
    by (simp add: eval_paths eval_env eval_ffmpeg vp9_kwargs_def audio_output_args_def)
  have g2: "download_yt_video (decimal_env tool_oserror) ''abcdefghijk'' 300 400 ''/data''
       ''ffmpeg'' ''ffprobe'' vp9_kwargs empty_world =
     (Inl (OtherException ''FileNotFoundError''),
      \<lparr>fs_files = {},
       tool_calls =
         [([''ffmpeg'', ''-n'', ''-ss'', ''30.0'', ''-i'', ''https://media.example/abcdefghijk'',
            ''-t'', ''10'', ''-ar'', ''48000'', ''-vn'', ''-ac'', ''2'', ''-sample_fmt'', ''s16'',
            ''-f'', ''wav'', ''-acodec'', ''pcm_s16le'',
            ''/data/audio/abcdefghijk_30000_40000.wav'', ''-loglevel'', ''error''], {})],
       logged = [], printed = []\<rparr>)"
    unfolding download_yt_video_codec_after_audio [OF l u2 c, where ts_start = 300
        and ts_end = 400 and output_dir = "''/data''" and ffmpeg_path = "''ffmpeg''"
        and ffprobe_path = "''ffprobe''" and w = empty_world]
    by (simp add: eval_paths eval_env eval_ffmpeg vp9_kwargs_def audio_output_args_def
          tool_oserror_def)
  from g1 g2 show ?thesis by blast
qed

text \<open>
  C3 as stated fails: with the codec \<open>vp9\<close> the tool has been run once, for the audio
  extraction, when NotImplementedError is raised.
\<close>

theorem download_yt_video_codec_runs_audio_first:
  "length ''abcdefghijk'' = 11 \<and> kw_video_codec vp9_kwargs \<noteq> ''h264'' \<and>
   download_yt_video (decimal_env tool_ok) ''abcdefghijk'' 300 400 ''/data'' ''ffmpeg''
       ''ffprobe'' vp9_kwargs empty_world =
     (Inl (NotImplementedError ''vp9''),
      \<lparr>fs_files = {},
       tool_calls =
         [([''ffmpeg'', ''-n'', ''-ss'', ''30.0'', ''-i'', ''https://media.example/abcdefghijk'',
            ''-t'', ''10'', ''-ar'', ''48000'', ''-vn'', ''-ac'', ''2'', ''-sample_fmt'', ''s16'',
            ''-f'', ''wav'', ''-acodec'', ''pcm_s16le'',
            ''/data/audio/abcdefghijk_30000_40000.wav'', ''-loglevel'', ''error''], {})],
       logged = [], printed = []\<rparr>)"
  by (simp add: download_yt_video_def eval_paths eval_env eval_ffmpeg vp9_kwargs_def
        audio_output_args_def)

text \<open>
  C9, as the code has it. For an identifier of length 11 whose URL is resolved, the codec
  \<open>h264\<close>, a positive \<open>num_retries\<close> and a tool that raises SubprocessError only,
  \<open>download_yt_video\<close> returns the video and audio paths and runs the tool for the mux,
  with the video and audio paths as its two inputs, after at least two earlier runs,
  whatever the runs for the audio and the video did: the returned pair does not depend on
  the tool.
\<close>

theorem download_yt_video_mux_always:
  fixes env :: "'f externals"
  assumes "length ytid = 11"
    and "video_url env ytid = Inr url"
    and "kw_video_codec kw = ''h264''"
    and "0 < kw_num_retries kw"
    and "\<forall>n args fs e. fst (run_command env n args fs) = Some e \<longrightarrow> (\<exists>s. e = SubprocessError s)"
    and "video_filepath = video_path output_dir (get_media_filename env ytid ts_start ts_end)
           (kw_video_format kw)"
    and "audio_filepath = audio_path output_dir (get_media_filename env ytid ts_start ts_end)
           (kw_audio_format kw)"
    and "videowithaudio_filepath =
           videowithaudio_path output_dir (get_media_filename env ytid ts_start ts_end)
             (kw_video_format kw)"
  shows "fst (download_yt_video env ytid ts_start ts_end output_dir ffmpeg_path ffprobe_path
                kw w)
           = Inr (Some video_filepath, Some audio_filepath) \<and>
         (\<exists>k fs. length (tool_calls w) + 2 \<le> k \<and>
            k < length (tool_calls (snd (download_yt_video env ytid ts_start ts_end output_dir
                          ffmpeg_path ffprobe_path kw w))) \<and>
            tool_calls (snd (download_yt_video env ytid ts_start ts_end output_dir
                          ffmpeg_path ffprobe_path kw w)) ! k
              = ([ffmpeg_path, ''-n'', ''-i'', video_filepath, ''-i'', audio_filepath]
                   @ mux_output_args kw
                   @ [videowithaudio_filepath, ''-loglevel'', ''error''], fs))"
proof -
  let ?w3 = "w\<lparr>fs_files := fs_files w - {videowithaudio_filepath, video_filepath,
                audio_filepath}\<rparr>"
  let ?nr = "kw_num_retries kw"
  let ?ia = "[''-n'', ''-ss'', str_of_float env ts_start]"
  let ?audio = "ffmpeg env ffmpeg_path (PathStr url) audio_filepath (Some ?ia)
                  (Some (audio_output_args kw)) ''error'' ?nr None ?w3"
  have i: "expand_inputs (PathStr url) = (Inr [''-i'', url] :: 'f exc + string list)"
    by (simp add: expand_inputs_def)
  have im: "expand_inputs (PathIterable [video_filepath, audio_filepath])
              = (Inr [''-i'', video_filepath, ''-i'', audio_filepath] :: 'f exc + string list)"
    by (simp add: expand_inputs_def)
  have "fst ?audio = Inr ()" by (rule ffmpeg_no_raise [OF assms(5) i])
  then obtain w4 where a: "?audio = (Inr (), w4)" by (cases ?audio) auto
  let ?video = "ffmpeg env ffmpeg_path (PathStr url) video_filepath (Some ?ia)
                  (Some (video_output_args kw)) ''error'' ?nr None w4"
  have "fst ?video = Inr ()" by (rule ffmpeg_no_raise [OF assms(5) i])
  then obtain w5 where v: "?video = (Inr (), w5)" by (cases ?video) auto
  let ?mux = "ffmpeg env ffmpeg_path (PathIterable [video_filepath, audio_filepath])
                videowithaudio_filepath (Some [''-n'']) (Some (mux_output_args kw)) ''error''
                ?nr None w5"
  have "fst ?mux = Inr ()" by (rule ffmpeg_no_raise [OF assms(5) im])
  then obtain w6 where m: "?mux = (Inr (), w6)" by (cases ?mux) auto
  have res: "download_yt_video env ytid ts_start ts_end output_dir ffmpeg_path ffprobe_path kw w
               = (Inr (Some video_filepath, Some audio_filepath),
                  add_log (InfoDownloaded ytid ts_start ts_end) w6)"
    using assms(1,2,3) a v m
    by (simp add: download_yt_video_def Let_def remove_three assms(6,7,8))
  from ffmpeg_first_call [OF i assms(4), of env ffmpeg_path audio_filepath ?ia
          "audio_output_args kw" "''error''" None ?w3] a
  obtain ys1 r1 where t4: "tool_calls w4 = tool_calls w @ r1 # ys1" by auto
  from ffmpeg_first_call [OF i assms(4), of env ffmpeg_path video_filepath ?ia
          "video_output_args kw" "''error''" None w4] v
  obtain ys2 r2 where t5: "tool_calls w5 = tool_calls w4 @ r2 # ys2" by auto
  from ffmpeg_first_call [OF im assms(4), of env ffmpeg_path videowithaudio_filepath
          "[''-n'']" "mux_output_args kw" "''error''" None w5] m
  obtain ys3 where t6: "tool_calls w6 = tool_calls w5
       @ ([ffmpeg_path] @ [''-n''] @ [''-i'', video_filepath, ''-i'', audio_filepath]
            @ mux_output_args kw @ [videowithaudio_filepath, ''-loglevel'', ''error''],
          fs_files w5) # ys3" by auto
  have k1: "length (tool_calls w) + 2 \<le> length (tool_calls w5)" using t4 t5 by simp
  have k2: "length (tool_calls w5)
              < length (tool_calls (add_log (InfoDownloaded ytid ts_start ts_end) w6))"
    using t6 by (simp add: add_log_def)
  have k3: "tool_calls (add_log (InfoDownloaded ytid ts_start ts_end) w6)
              ! length (tool_calls w5)
            = ([ffmpeg_path, ''-n'', ''-i'', video_filepath, ''-i'', audio_filepath]
                   @ mux_output_args kw
                   @ [videowithaudio_filepath, ''-loglevel'', ''error''], fs_files w5)"
    using t6 by (simp add: add_log_def)
  show ?thesis
    unfolding res using k1 k2 k3 by auto
qed

theorem download_yt_video_mux_always_witness:
  "fst (download_yt_video (decimal_env tool_http_503) ''abcdefghijk'' 300 400 ''/data''
          ''ffmpeg'' ''ffprobe'' two_retry_kwargs empty_world)
     = Inr (Some ''/data/video/abcdefghijk_30000_40000.mp4'',
            Some ''/data/audio/abcdefghijk_30000_40000.wav'') \<and>
   (\<exists>k fs. 2 \<le> k \<and>
      k < length (tool_calls (snd (download_yt_video (decimal_env tool_http_503)
             ''abcdefghijk'' 300 400 ''/data'' ''ffmpeg'' ''ffprobe'' two_retry_kwargs
             empty_world))) \<and>
      tool_calls (snd (download_yt_video (decimal_env tool_http_503)
             ''abcdefghijk'' 300 400 ''/data'' ''ffmpeg'' ''ffprobe'' two_retry_kwargs
             empty_world)) ! k
        = ([''ffmpeg'', ''-n'', ''-i'', ''/data/video/abcdefghijk_30000_40000.mp4'',
            ''-i'', ''/data/audio/abcdefghijk_30000_40000.wav'',
            ''-f'', ''mp4'', ''-r'', ''30'', ''-vcodec'', ''h264'', ''-acodec'', ''aac'',
            ''-ar'', ''48000'', ''-ac'', ''2'', ''-strict'', ''experimental'',
            ''/data/video_audio/abcdefghijk_30000_40000.mp4'', ''-loglevel'', ''error''], fs))"
proof -
  have l: "length ''abcdefghijk'' = 11" by simp
  have u: "video_url (decimal_env tool_http_503) ''abcdefghijk''
             = Inr ''https://media.example/abcdefghijk''"
    by (simp add: decimal_env_def)
  have c: "kw_video_codec two_retry_kwargs = ''h264''"
    by (simp add: two_retry_kwargs_def cli_kwargs_def)
  have n: "0 < kw_num_retries two_retry_kwargs"
    by (simp add: two_retry_kwargs_def cli_kwargs_def)
  have v: "''/data/video/abcdefghijk_30000_40000.mp4''
             = video_path ''/data''
                 (get_media_filename (decimal_env tool_http_503) ''abcdefghijk'' 300 400)
                 (kw_video_format two_retry_kwargs)"
    by (simp add: eval_paths decimal_env_def two_retry_kwargs_def cli_kwargs_def)
  have a: "''/data/audio/abcdefghijk_30000_40000.wav''
             = audio_path ''/data''
                 (get_media_filename (decimal_env tool_http_503) ''abcdefghijk'' 300 400)
                 (kw_audio_format two_retry_kwargs)"
    by (simp add: eval_paths decimal_env_def two_retry_kwargs_def cli_kwargs_def)
  have m: "''/data/video_audio/abcdefghijk_30000_40000.mp4''
             = videowithaudio_path ''/data''
                 (get_media_filename (decimal_env tool_http_503) ''abcdefghijk'' 300 400)
                 (kw_video_format two_retry_kwargs)"
    by (simp add: eval_paths decimal_env_def two_retry_kwargs_def cli_kwargs_def)
  have x: "mux_output_args two_retry_kwargs
             = [''-f'', ''mp4'', ''-r'', ''30'', ''-vcodec'', ''h264'', ''-acodec'', ''aac'',
                ''-ar'', ''48000'', ''-ac'', ''2'', ''-strict'', ''experimental'']"
    by (simp add: mux_output_args_def two_retry_kwargs_def cli_kwargs_def eval_paths)
  show ?thesis
    using download_yt_video_mux_always [OF l u c n tool_http_only_subprocess v a m, where ffmpeg_path = "''ffmpeg''"
        and ffprobe_path = "''ffprobe''" and w = empty_world]
    unfolding x by (simp add: empty_world_def numeral_2_eq_2)
qed

text \<open>
  C9 as stated fails for an identifier of length 11 in four ways: with \<open>num_retries = 0\<close>
  the pair is returned and the tool is never run; with the codec \<open>vp9\<close>
  NotImplementedError is raised; when the URL is not resolved the exception leaves the
  function before any run; and an exception of the tool other than SubprocessError leaves
  it after the first run.
\<close>

theorem download_yt_video_mux_not_always:
  "download_yt_video (decimal_env tool_ok) ''abcdefghijk'' 300 400 ''/data'' ''ffmpeg''
       ''ffprobe'' no_retry_kwargs empty_world =
     (Inr (Some ''/data/video/abcdefghijk_30000_40000.mp4'',
           Some ''/data/audio/abcdefghijk_30000_40000.wav''),
      \<lparr>fs_files = {}, tool_calls = [],
       logged = [ErrorMaxRetries 0 (PathStr ''https://media.example/abcdefghijk'') None,
                 ErrorMaxRetries 0 (PathStr ''https://media.example/abcdefghijk'') None,
                 ErrorMaxRetries 0
                   (PathIterable [''/data/video/abcdefghijk_30000_40000.mp4'',
                                  ''/data/audio/abcdefghijk_30000_40000.wav'']) None,
                 InfoDownloaded ''abcdefghijk'' 300 400],
       printed = []\<rparr>) \<and>
   fst (download_yt_video (decimal_env tool_ok) ''abcdefghijk'' 300 400 ''/data'' ''ffmpeg''
          ''ffprobe'' vp9_kwargs empty_world) = Inl (NotImplementedError ''vp9'') \<and>
   download_yt_video
       ((decimal_env tool_ok)\<lparr>video_url := \<lambda>ytid. Inl (OtherException ''KeyError'')\<rparr>)
       ''abcdefghijk'' 300 400 ''/data'' ''ffmpeg'' ''ffprobe'' cli_kwargs empty_world =
     (Inl (OtherException ''KeyError''), empty_world) \<and>
   fst (download_yt_video (decimal_env tool_oserror) ''abcdefghijk'' 300 400 ''/data''
          ''ffmpeg'' ''ffprobe'' cli_kwargs empty_world)
     = Inl (OtherException ''FileNotFoundError'') \<and>
   length (tool_calls (snd (download_yt_video (decimal_env tool_oserror) ''abcdefghijk'' 300 400
          ''/data'' ''ffmpeg'' ''ffprobe'' cli_kwargs empty_world))) = 1"
proof -
  have a: "download_yt_video (decimal_env tool_ok) ''abcdefghijk'' 300 400 ''/data'' ''ffmpeg''
       ''ffprobe'' no_retry_kwargs empty_world =
     (Inr (Some ''/data/video/abcdefghijk_30000_40000.mp4'',
           Some ''/data/audio/abcdefghijk_30000_40000.wav''),
      \<lparr>fs_files = {}, tool_calls = [],
       logged = [ErrorMaxRetries 0 (PathStr ''https://media.example/abcdefghijk'') None,
                 ErrorMaxRetries 0 (PathStr ''https://media.example/abcdefghijk'') None,
                 ErrorMaxRetries 0
                   (PathIterable [''/data/video/abcdefghijk_30000_40000.mp4'',
                                  ''/data/audio/abcdefghijk_30000_40000.wav'']) None,
                 InfoDownloaded ''abcdefghijk'' 300 400],
       printed = []\<rparr>)"
    by (simp add: download_yt_video_def eval_paths eval_env eval_ffmpeg no_retry_kwargs_def)
  have b: "fst (download_yt_video (decimal_env tool_ok) ''abcdefghijk'' 300 400 ''/data''
          ''ffmpeg'' ''ffprobe'' vp9_kwargs empty_world) = Inl (NotImplementedError ''vp9'')"
    by (simp add: download_yt_video_def eval_paths eval_env eval_ffmpeg vp9_kwargs_def
          audio_output_args_def)
  have c: "download_yt_video
       ((decimal_env tool_ok)\<lparr>video_url := \<lambda>ytid. Inl (OtherException ''KeyError'')\<rparr>)
       ''abcdefghijk'' 300 400 ''/data'' ''ffmpeg'' ''ffprobe'' cli_kwargs empty_world =
     (Inl (OtherException ''KeyError''), empty_world)"
    by (simp add: download_yt_video_def eval_paths eval_env eval_ffmpeg)
  have d: "fst (download_yt_video (decimal_env tool_oserror) ''abcdefghijk'' 300 400 ''/data''
          ''ffmpeg'' ''ffprobe'' cli_kwargs empty_world)
     = Inl (OtherException ''FileNotFoundError'') \<and>
   length (tool_calls (snd (download_yt_video (decimal_env tool_oserror) ''abcdefghijk'' 300 400
          ''/data'' ''ffmpeg'' ''ffprobe'' cli_kwargs empty_world))) = 1"
    by (simp add: download_yt_video_def eval_paths eval_env eval_ffmpeg tool_oserror_def
          audio_output_args_def)
  from a b c d show ?thesis by blast
qed

section \<open>Properties of download_subset_videos\<close>

text \<open>
  What the loop body does for a row of four fields when the loop is run on a list of
  rows: the start offset is hour * 3600 + minute * 60 + second, the end offset is 10
  more, and the job is skipped when its three output files exist and submitted otherwise.
\<close>

lemma process_row_skips:
  assumes "int_of_str env h = Some hour" and "int_of_str env m = Some minute"
    and "int_of_str env s = Some second"
    and "ts_start = float_of_int env (hour * 3600 + minute * 60 + second)"
    and "ts_end = float_add env ts_start (float_of_int env 10)"
    and "name = get_media_filename env ytid ts_start ts_end"
    and "os_path_exists (video_path data_dir name (dict_get (cfg_video_format cfg) ''mp4''))
           (sched_world st)"
    and "os_path_exists (audio_path data_dir name (dict_get (cfg_audio_format cfg) ''wav''))
           (sched_world st)"
    and "os_path_exists
           (videowithaudio_path data_dir name (dict_get (cfg_video_format cfg) ''mp4''))
           (sched_world st)"
  shows "process_row env data_dir cfg [ytid, h, m, s] st
           = Inr (st\<lparr>sched_world :=
                      add_log (InfoAlreadyDownloaded ytid ts_start ts_end) (sched_world st)\<rparr>)"
  using assms by (simp add: process_row_def row_get_def row_int_def Let_def)

lemma process_row_submits:
  assumes "int_of_str env h = Some hour" and "int_of_str env m = Some minute"
    and "int_of_str env s = Some second"
    and "ts_start = float_of_int env (hour * 3600 + minute * 60 + second)"
    and "ts_end = float_add env ts_start (float_of_int env 10)"
    and "name = get_media_filename env ytid ts_start ts_end"
    and "\<not> (os_path_exists (video_path data_dir name (dict_get (cfg_video_format cfg) ''mp4''))
              (sched_world st)
          \<and> os_path_exists (audio_path data_dir name (dict_get (cfg_audio_format cfg) ''wav''))
              (sched_world st)
          \<and> os_path_exists
              (videowithaudio_path data_dir name (dict_get (cfg_video_format cfg) ''mp4''))
              (sched_world st))"
  shows "process_row env data_dir cfg [ytid, h, m, s] st
           = Inr (st\<lparr>submitted := submitted st @ [(ytid, ts_start, ts_end)]\<rparr>)"
  using assms by (auto simp add: process_row_def row_get_def row_int_def Let_def)

text \<open>
  C8. \<open>download_subset_videos\<close> never reaches the loop: \<open>subset_data\<close> is the reader
  object of \<open>csv.reader\<close>, and \<open>subset_data[1:]\<close>, written to skip the header, raises
  TypeError. For every metadata file the call ends with that exception (or with the
  ValueError of a pool of fewer than one worker), no row processed and no job submitted.
\<close>

theorem download_subset_videos_type_error:
  "download_subset_videos env subset_path file_rows data_dir ffmpeg_path ffprobe_path
       num_workers cfg w =
     (Inl (if num_workers < 1 then ValueError else TypeError),
      \<lparr>sched_world = add_log (InfoStarting (get_subset_name env subset_path)) w,
       submitted = []\<rparr>)"
  by (simp add: download_subset_videos_def csv_reader_def slice_from_def)

text \<open>
  C7. On a metadata file whose one job has its three output files, the loop run on the
  list of rows after the header skips the job and logs it; \<open>download_subset_videos\<close>
  itself raises TypeError before the first row and logs no skipped job.
\<close>

theorem download_subset_videos_skips_nothing:
  "process_rows (decimal_env tool_ok) ''/data'' cli_cfg (drop 1 meta_rows)
       \<lparr>sched_world = done_world, submitted = []\<rparr> =
     (Inr (),
      \<lparr>sched_world = done_world\<lparr>logged := [InfoAlreadyDownloaded ''abcdefghijk'' 300 400]\<rparr>,
       submitted = []\<rparr>) \<and>
   download_subset_videos (decimal_env tool_ok) ''meta.csv'' meta_rows ''/data'' ''ffmpeg''
       ''ffprobe'' 6 cli_cfg done_world =
     (Inl TypeError,
      \<lparr>sched_world = done_world\<lparr>logged := [InfoStarting ''meta.csv'']\<rparr>, submitted = []\<rparr>)"
  by (simp add: download_subset_videos_def csv_reader_def slice_from_def meta_rows_def
        process_row_def row_get_def row_int_def Let_def dict_get_def cli_cfg_def done_world_def
        add_log_def os_path_exists_def int_of_digits_def digits_value_def is_digit_def
        eval_paths decimal_env_def)

end
